theory Spec2Isabelle
  imports Main "HOL-Library.Sublist"
begin

section \<open>Python values, exceptions and HTTP responses\<close>

text \<open>
  The views of \<^verbatim>\<open>openquake/server/views.py\<close> receive their URL arguments and query
  parameters as Python values. Three kinds occur: \<^verbatim>\<open>None\<close>, integers and strings.
  Truthiness is Python's: \<^verbatim>\<open>None\<close>, \<^verbatim>\<open>0\<close> and \<^verbatim>\<open>''\<close> are false.
\<close>

datatype pyval = PyNone | PyInt int | PyStr string

fun truthy :: "pyval \<Rightarrow> bool" where
  "truthy PyNone = False"
| "truthy (PyInt i) = (i \<noteq> 0)"
| "truthy (PyStr s) = (s \<noteq> [])"

text \<open>The Python expression \<^verbatim>\<open>x or y\<close>.\<close>

definition py_or :: "pyval \<Rightarrow> pyval \<Rightarrow> pyval" where
  "py_or x y = (if truthy x then x else y)"

text \<open>
  The exceptions that the modelled code paths can raise. \<open>DoesNotExist\<close> stands for
  every subclass of Django's \<^verbatim>\<open>ObjectDoesNotExist\<close>, which is what the handlers catch.
\<close>

datatype exc =
    DoesNotExist
  | MultipleObjectsReturned
  | AssertionError
  | ValueError
  | KeyError
  | IOError
  | OSError
  | EngineError

datatype json =
    JNull
  | JBool bool
  | JInt int
  | JStr string
  | JList "json list"
  | JObj "(string \<times> json) list"

text \<open>
  A response body is either raw text or the \<^verbatim>\<open>json.dumps\<close> rendering of a value; the
  rendering itself is not modelled, the value is kept.
\<close>

datatype body = Text string | JsonDumps json

record http_response =
  status_code :: nat
  content :: body
  content_type :: "string option"
  headers :: "(string \<times> string) list"

text \<open>A view either returns a response or lets an exception escape.\<close>

datatype outcome = Response http_response | Raised exc

definition JSON :: string where
  "JSON = ''application/json''"

definition DEFAULT_EXPORT_TYPE :: string where
  "DEFAULT_EXPORT_TYPE = ''xml''"

definition DEFAULT_CONTENT_TYPE :: string where
  "DEFAULT_CONTENT_TYPE = ''text/plain''"

definition EXPORT_CONTENT_TYPE_MAP :: "string \<Rightarrow> string option" where
  "EXPORT_CONTENT_TYPE_MAP =
     [''xml'' \<mapsto> ''application/xml'', ''geojson'' \<mapsto> ''application/json'']"

text \<open>
  \<^verbatim>\<open>HttpResponse(content=..., content_type=..., status=...)\<close> and
  \<^verbatim>\<open>HttpResponseNotFound(content)\<close> of Django: the latter is a response with
  status 404 and the framework's default content type.
\<close>

definition HttpResponse :: "body \<Rightarrow> string option \<Rightarrow> nat \<Rightarrow> http_response" where
  "HttpResponse c ct st =
     \<lparr>status_code = st, content = c, content_type = ct, headers = []\<rparr>"

definition HttpResponseNotFound :: "string \<Rightarrow> http_response" where
  "HttpResponseNotFound msg = HttpResponse (Text msg) None 404"

section \<open>The job, log and output store\<close>

text \<open>
  The tables the views query through the Django ORM. Tables looked up by primary key
  are maps from the key; tables that are filtered and sliced are lists in storage order.
\<close>

record oq_job =
  job_status :: string
  job_user_name :: string
  job_hazard_calculation :: "int option"
  job_is_running :: bool
  job_relevant :: bool

record job_param =
  jp_id :: int
  jp_job_id :: int
  jp_name :: string
  jp_value :: string

record log =
  log_job_id :: int
  log_timestamp :: string
  log_level :: string
  log_process :: string
  log_message :: string

record oq_output =
  out_oq_job :: int
  out_output_type :: string
  out_display_name :: string

record store =
  jobs :: "int \<Rightarrow> oq_job option"
  job_params :: "job_param list"
  logs :: "log list"
  outputs :: "int \<Rightarrow> oq_output option"

text \<open>
  \<^verbatim>\<open>Model.objects.get(pk=...)\<close>: the row with that primary key, or
  \<^verbatim>\<open>DoesNotExist\<close>.
\<close>

definition get_pk :: "(int \<Rightarrow> 'a option) \<Rightarrow> int \<Rightarrow> exc + 'a" where
  "get_pk table k = (case table k of None \<Rightarrow> Inl DoesNotExist | Some row \<Rightarrow> Inr row)"

text \<open>
  \<^verbatim>\<open>Model.objects.get(**conditions)\<close> on a table without a key for the conditions:
  exactly one matching row, else \<^verbatim>\<open>DoesNotExist\<close> (none) or
  \<^verbatim>\<open>MultipleObjectsReturned\<close> (several).
\<close>

definition objects_get :: "('a \<Rightarrow> bool) \<Rightarrow> 'a list \<Rightarrow> exc + 'a" where
  "objects_get cond table =
     (case filter cond table of
        [] \<Rightarrow> Inl DoesNotExist
      | [row] \<Rightarrow> Inr row
      | _ \<Rightarrow> Inl MultipleObjectsReturned)"

subsection \<open>Slicing a query set\<close>

text \<open>
  Python's \<^verbatim>\<open>int(s)\<close> on a string of decimal digits, as the URL patterns deliver
  them. Other strings are answered with \<^verbatim>\<open>ValueError\<close>.
\<close>

definition is_digit :: "char \<Rightarrow> bool" where
  "is_digit c = (48 \<le> (of_char c :: nat) \<and> (of_char c :: nat) \<le> 57)"

definition nat_of_digits :: "string \<Rightarrow> nat option" where
  "nat_of_digits s =
     (if s \<noteq> [] \<and> list_all is_digit s
      then Some (foldl (\<lambda>acc c. 10 * acc + (of_char c - 48)) 0 s)
      else None)"

fun negative :: "pyval \<Rightarrow> bool" where
  "negative (PyInt i) = (i < 0)"
| "negative _ = False"

fun py_index :: "pyval \<Rightarrow> exc + nat option" where
  "py_index PyNone = Inr None"
| "py_index (PyInt i) = Inr (Some (nat i))"
| "py_index (PyStr s) =
     (case nat_of_digits s of None \<Rightarrow> Inl ValueError | Some n \<Rightarrow> Inr (Some n))"

text \<open>The rows of the half-open range from \<open>lo\<close> (default 0) to \<open>hi\<close> (default: no bound).\<close>

definition rows_between :: "nat option \<Rightarrow> nat option \<Rightarrow> 'a list \<Rightarrow> 'a list" where
  "rows_between lo hi rows =
     (let l = (case lo of None \<Rightarrow> 0 | Some n \<Rightarrow> n)
      in case hi of
           None \<Rightarrow> drop l rows
         | Some h \<Rightarrow> take (h - l) (drop l rows))"

text \<open>
  \<^verbatim>\<open>queryset[start:stop]\<close>, Django's \<^verbatim>\<open>QuerySet.__getitem__\<close> for a slice: a
  negative integer bound fails the assertion "Negative indexing is not supported",
  then each bound that is not \<^verbatim>\<open>None\<close> goes through \<^verbatim>\<open>int()\<close>, and the rows
  of the range are fetched.
\<close>

definition qs_slice :: "pyval \<Rightarrow> pyval \<Rightarrow> 'a list \<Rightarrow> exc + 'a list" where
  "qs_slice start stop rows =
     (if negative start \<or> negative stop then Inl AssertionError
      else case py_index start of
             Inl e \<Rightarrow> Inl e
           | Inr lo \<Rightarrow>
               (case py_index stop of
                  Inl e \<Rightarrow> Inl e
                | Inr hi \<Rightarrow> Inr (rows_between lo hi rows)))"

section \<open>Strings and paths\<close>

text \<open>
  \<^verbatim>\<open>str(n)\<close> and \<^verbatim>\<open>'%d' % n\<close> for an integer: its decimal digits.
\<close>

fun str_nat :: "nat \<Rightarrow> string" where
  "str_nat n =
     (if n < 10 then [char_of (48 + n)]
      else str_nat (n div 10) @ [char_of (48 + n mod 10)])"

declare str_nat.simps [simp del]

definition str_int :: "int \<Rightarrow> string" where
  "str_int i = (if i < 0 then CHR ''-'' # str_nat (nat (- i)) else str_nat (nat i))"

text \<open>
  \<^verbatim>\<open>repr(s)\<close> of a plain string (no quote or escape inside) and \<^verbatim>\<open>str(t)\<close> of a
  tuple of such strings, as in \<^verbatim>\<open>('job_hazard.ini', 'job.ini')\<close>.
\<close>

definition py_repr :: "string \<Rightarrow> string" where
  "py_repr s = [CHR 0x27] @ s @ [CHR 0x27]"

fun join_with :: "string \<Rightarrow> string list \<Rightarrow> string" where
  "join_with sep [] = []"
| "join_with sep [x] = x"
| "join_with sep (x # y # ys) = x @ sep @ join_with sep (y # ys)"

definition str_tuple :: "string list \<Rightarrow> string" where
  "str_tuple xs =
     (case xs of
        [x] \<Rightarrow> ''('' @ py_repr x @ '',)''
      | _ \<Rightarrow> ''('' @ join_with '', '' (map py_repr xs) @ '')'')"

text \<open>
  \<^verbatim>\<open>s.splitlines()\<close> of a byte string: the lines of \<open>s\<close> without their line ends;
  a line ends at LF, CR or CR LF. The flag says that the previous character was CR.
\<close>

fun splitlines_from :: "bool \<Rightarrow> string \<Rightarrow> string \<Rightarrow> string list" where
  "splitlines_from after_cr cur [] = (if cur = [] then [] else [cur])"
| "splitlines_from after_cr cur (c # cs) =
     (if c = CHR 0x0A then
        (if after_cr then splitlines_from False cur cs
         else cur # splitlines_from False [] cs)
      else if c = CHR 0x0D then cur # splitlines_from True [] cs
      else splitlines_from False (cur @ [c]) cs)"

definition splitlines :: "string \<Rightarrow> string list" where
  "splitlines s = splitlines_from False [] s"

type_synonym path = string

text \<open>
  \<^verbatim>\<open>os.path.join(a, b)\<close>, \<^verbatim>\<open>os.path.basename(p)\<close> and \<^verbatim>\<open>os.path.dirname(p)\<close>
  of \<^verbatim>\<open>posixpath\<close>: an absolute second component replaces the first; the base name
  is what follows the last slash; the directory name is what precedes it, without
  trailing slashes unless it consists of slashes only.
\<close>

definition os_path_join :: "path \<Rightarrow> path \<Rightarrow> path" where
  "os_path_join a b =
     (if b \<noteq> [] \<and> hd b = CHR ''/'' then b
      else if a = [] \<or> last a = CHR ''/'' then a @ b
      else a @ ''/'' @ b)"

definition os_path_basename :: "path \<Rightarrow> path" where
  "os_path_basename p = rev (takeWhile (\<lambda>c. c \<noteq> CHR ''/'') (rev p))"

definition os_path_dirname :: "path \<Rightarrow> path" where
  "os_path_dirname p =
     (let head = rev (dropWhile (\<lambda>c. c \<noteq> CHR ''/'') (rev p))
      in if list_all (\<lambda>c. c = CHR ''/'') head then head
         else rev (dropWhile (\<lambda>c. c = CHR ''/'') (rev head)))"

section \<open>The world a request runs in\<close>

text \<open>
  Besides the store, the views touch the file system (regular files with their bytes,
  and directories), the callback notifications sent by \<^verbatim>\<open>tasks.update_calculation\<close>,
  the error log of \<^verbatim>\<open>logging.error\<close> and the executor's queue of submitted jobs.
\<close>

record task =
  task_job_id :: int
  task_temp_dir :: path
  task_callback_url :: "string option"
  task_foreign_calc_id :: "string option"
  task_dbname :: string
  task_logfile :: "string option"

record world =
  db :: store
  fs_files :: "path \<Rightarrow> string option"
  fs_dirs :: "path list"
  notifications :: "(string \<times> string \<times> string) list"
  error_log :: "string list"
  submitted :: "task list"

text \<open>
  \<^verbatim>\<open>tempfile.mkdtemp()\<close> creates a directory under a name of the system's choosing
  that did not exist before and returns the name. The chosen name is the argument
  \<open>tmp\<close> of the views that call it.
\<close>

definition mkdtemp :: "path \<Rightarrow> world \<Rightarrow> world" where
  "mkdtemp tmp w = w\<lparr>fs_dirs := tmp # fs_dirs w\<rparr>"

text \<open>A path lies under a directory when it extends the directory's name and a slash.\<close>

definition under :: "path \<Rightarrow> path \<Rightarrow> bool" where
  "under d p = prefix (d @ ''/'') p"

text \<open>
  \<^verbatim>\<open>shutil.rmtree(d)\<close>: fails when \<open>d\<close> is not a directory; otherwise removes it with
  every file and directory under it.
\<close>

definition rmtree :: "path \<Rightarrow> world \<Rightarrow> exc + world" where
  "rmtree d w =
     (if d \<notin> set (fs_dirs w) then Inl OSError
      else Inr (w\<lparr>fs_files := (\<lambda>p. if under d p then None else fs_files w p),
                  fs_dirs := filter (\<lambda>q. q \<noteq> d \<and> \<not> under d q) (fs_dirs w)\<rparr>))"

text \<open>
  \<^verbatim>\<open>shutil.move(src, dst)\<close> for a regular file \<open>src\<close>: fails when \<open>src\<close> does not
  exist; when \<open>dst\<close> is a directory the file goes inside it under its base name, which
  must not exist there; otherwise the file is renamed to \<open>dst\<close>, replacing what was
  there. The source is gone afterwards (unless source and destination are the same).
\<close>

definition shutil_move :: "path \<Rightarrow> path \<Rightarrow> world \<Rightarrow> exc + world" where
  "shutil_move src dst w =
     (case fs_files w src of
        None \<Rightarrow> Inl IOError
      | Some data \<Rightarrow>
          (let real_dst =
                 (if dst \<in> set (fs_dirs w) then os_path_join dst (os_path_basename src)
                  else dst)
           in if dst \<in> set (fs_dirs w) \<and>
                 (real_dst \<in> set (fs_dirs w) \<or> fs_files w real_dst \<noteq> None)
              then Inl OSError
              else Inr (w\<lparr>fs_files := ((fs_files w)(src := None))(real_dst \<mapsto> data)\<rparr>)))"

text \<open>
  Modelled from the spec: \<^verbatim>\<open>tasks.update_calculation(callback_url, status=..., einfo=...)\<close>
  is not among the sources; by the callback protocol of the specification, the
  callback URL, if supplied, is notified with the status and the error information.
\<close>

definition update_calculation :: "string option \<Rightarrow> string \<Rightarrow> string \<Rightarrow> world \<Rightarrow> world" where
  "update_calculation callback_url st einfo w =
     (case callback_url of
        None \<Rightarrow> w
      | Some url \<Rightarrow> w\<lparr>notifications := notifications w @ [(url, st, einfo)]\<rparr>)"

definition logging_error :: "string \<Rightarrow> world \<Rightarrow> world" where
  "logging_error msg w = w\<lparr>error_log := error_log w @ [msg]\<rparr>"

text \<open>
  A request: its query parameters, its form fields, its uploaded files by form field,
  the user \<^verbatim>\<open>utils.getusername\<close> finds for it, and what \<^verbatim>\<open>_get_base_url\<close> reads.
  An uploaded file has the name the client gave it and the path of its temporary copy.
  \<^verbatim>\<open>request.FILES\<close> is Django's \<^verbatim>\<open>MultiValueDict\<close>: every form field that
  carries files, with the files uploaded under it in the order of the request, of
  which there is at least one: the earlier ones and the last one.
\<close>

record uploaded_file =
  up_name :: string
  up_temporary_file_path :: path

record upload_field =
  field_name :: string
  field_earlier :: "uploaded_file list"
  field_last :: uploaded_file

record request =
  req_GET :: "string \<Rightarrow> string option"
  req_POST :: "string \<Rightarrow> string option"
  req_FILES :: "upload_field list"
  req_username :: string
  req_is_secure :: bool
  req_HTTP_HOST :: string

text \<open>
  The fields of the dictionary: a key occurs once, so of several entries of one name
  the first stands for the field. \<^verbatim>\<open>FILES.get(key)\<close> is the last file of the field,
  or \<^verbatim>\<open>None\<close> without such a field; \<^verbatim>\<open>FILES.values()\<close> are the last files of the
  fields, one for each field.
\<close>

fun first_fields :: "string list \<Rightarrow> upload_field list \<Rightarrow> upload_field list" where
  "first_fields seen [] = []"
| "first_fields seen (f # fs) =
     (if field_name f \<in> set seen then first_fields seen fs
      else f # first_fields (field_name f # seen) fs)"

definition files_get :: "upload_field list \<Rightarrow> string \<Rightarrow> uploaded_file option" where
  "files_get files key =
     (case find (\<lambda>f. field_name f = key) files of
        None \<Rightarrow> None
      | Some f \<Rightarrow> Some (field_last f))"

definition files_values :: "upload_field list \<Rightarrow> uploaded_file list" where
  "files_values files = map field_last (first_fields [] files)"

text \<open>
  The collaborators of the views whose code is not among the sources, as parameters:
  the archive reader \<^verbatim>\<open>readinput.extract_from_zip\<close>, the engine's
  \<^verbatim>\<open>job_from_file\<close> (which answers with the new job's id), the parameters
  \<^verbatim>\<open>vars(calc.get_oqparam())\<close> of a job, the exporter \<^verbatim>\<open>core.export\<close> (the path of
  the exported file, or \<^verbatim>\<open>None\<close>), the parser \<^verbatim>\<open>valid.boolean\<close>, and the text
  \<^verbatim>\<open>safely_call\<close> renders for a caught exception.
\<close>

record engine =
  extract_from_zip :: "uploaded_file \<Rightarrow> string list \<Rightarrow> world \<Rightarrow> (exc + path list) \<times> world"
  job_from_file ::
    "path \<Rightarrow> string \<Rightarrow> string \<Rightarrow> string \<Rightarrow> string option \<Rightarrow> string option \<Rightarrow> world
       \<Rightarrow> (exc + int) \<times> world"
  get_oqparam :: "int \<Rightarrow> world \<Rightarrow> (string \<times> json) list"
  export :: "int \<Rightarrow> path \<Rightarrow> string \<Rightarrow> world \<Rightarrow> (exc + path option) \<times> world"
  boolean :: "string \<Rightarrow> exc + bool"
  format_exc :: "exc \<Rightarrow> string"

text \<open>
  Modelled from the spec: \<^verbatim>\<open>safely_call(func, args)\<close> is not among the sources; by
  the specification it is the wrapper that calls and captures the outcome. The views
  read its answer as the pair of the result and \<^verbatim>\<open>None\<close>, or of the rendered
  traceback and the exception type when the call raised.
\<close>

definition safely_call :: "(exc \<Rightarrow> string) \<Rightarrow> (exc + 'a) \<times> world \<Rightarrow> ((string \<times> exc) + 'a) \<times> world" where
  "safely_call render r =
     (case r of
        (Inl e, w) \<Rightarrow> (Inl (render e, e), w)
      | (Inr v, w) \<Rightarrow> (Inr v, w))"

section \<open>Status and log reader\<close>

text \<open>
  \<^verbatim>\<open>log_to_json\<close>: a log record as a list of strings. The timestamp is kept as its
  \<^verbatim>\<open>isoformat()\<close> rendering, of which the first 22 characters are reported.
\<close>

definition log_to_json :: "log \<Rightarrow> json" where
  "log_to_json l =
     JList [JStr (take 22 (log_timestamp l)), JStr (log_level l),
            JStr (log_process l), JStr (log_message l)]"

text \<open>
  \<^verbatim>\<open>get_log_slice(request, calc_id, start, stop)\<close>. The view only reads the store; it is
  given the world and returns it with the outcome.
\<close>

definition get_log_slice :: "world \<Rightarrow> int \<Rightarrow> pyval \<Rightarrow> pyval \<Rightarrow> outcome \<times> world" where
  "get_log_slice w calc_id start stop =
     (let start' = py_or start (PyInt 0);
          stop' = py_or stop PyNone
      in case qs_slice start' stop' (filter (\<lambda>l. log_job_id l = calc_id) (logs (db w))) of
           Inl e \<Rightarrow>
             (if e = DoesNotExist then (Response (HttpResponseNotFound []), w)
              else (Raised e, w))
         | Inr rows \<Rightarrow>
             (Response (HttpResponse (JsonDumps (JList (map log_to_json rows))) (Some JSON) 200),
              w))"

text \<open>
  \<^verbatim>\<open>get_traceback(request, calc_id)\<close>. Only the lookup of the job stands inside the
  \<^verbatim>\<open>try\<close>; an exception of the lookup of the log entry escapes the view.
\<close>

definition get_traceback :: "world \<Rightarrow> int \<Rightarrow> outcome \<times> world" where
  "get_traceback w calc_id =
     (case get_pk (jobs (db w)) calc_id of
        Inl e \<Rightarrow>
          (if e = DoesNotExist then (Response (HttpResponseNotFound []), w)
           else (Raised e, w))
      | Inr _ \<Rightarrow>
          (case objects_get (\<lambda>l. log_job_id l = calc_id \<and> log_level l = ''CRITICAL'')
                  (logs (db w)) of
             Inl e \<Rightarrow> (Raised e, w)
           | Inr l \<Rightarrow>
               (Response (HttpResponse
                  (JsonDumps (JList (map JStr (splitlines (log_message l))))) (Some JSON) 200),
                w)))"

subsection \<open>Listing the calculations\<close>

text \<open>
  Modelled from the spec: the property \<^verbatim>\<open>OqJob.job_type\<close> is not among the sources;
  by the specification it is hazard or risk, derived from the presence of a
  hazard-calculation linkage.
\<close>

definition job_type :: "oq_job \<Rightarrow> string" where
  "job_type j = (if job_hazard_calculation j = None then ''hazard'' else ''risk'')"

text \<open>
  \<^verbatim>\<open>queryset.filter(job__field=value)\<close>: the rows whose job exists and meets the
  condition. \<^verbatim>\<open>queryset.order_by('-id')\<close>: the rows by descending id.
\<close>

definition filter_job :: "store \<Rightarrow> (oq_job \<Rightarrow> bool) \<Rightarrow> job_param list \<Rightarrow> job_param list" where
  "filter_job s cond qs =
     filter (\<lambda>jp. case jobs s (jp_job_id jp) of None \<Rightarrow> False | Some j \<Rightarrow> cond j) qs"

definition order_by_desc_id :: "job_param list \<Rightarrow> job_param list" where
  "order_by_desc_id qs = rev (sort_key jp_id qs)"

type_synonym calc_row = "int \<times> string \<times> string \<times> bool \<times> string"

text \<open>
  The list comprehension at the end of \<^verbatim>\<open>_get_calcs\<close>; reading \<^verbatim>\<open>jp.job\<close>
  fetches the job of the row.
\<close>

fun calc_rows :: "store \<Rightarrow> job_param list \<Rightarrow> exc + calc_row list" where
  "calc_rows s [] = Inr []"
| "calc_rows s (jp # jps) =
     (case get_pk (jobs s) (jp_job_id jp) of
        Inl e \<Rightarrow> Inl e
      | Inr j \<Rightarrow>
          (case calc_rows s jps of
             Inl e \<Rightarrow> Inl e
           | Inr rows \<Rightarrow>
               Inr ((jp_job_id jp, job_status j, job_type j, job_is_running j, jp_value jp)
                    # rows)))"

text \<open>
  The query set \<^verbatim>\<open>_get_calcs\<close> builds, filter by filter, before it reads the rows.
\<close>

definition get_calcs_query ::
  "(string \<Rightarrow> exc + bool) \<Rightarrow> store \<Rightarrow> (string \<Rightarrow> string option) \<Rightarrow> string \<Rightarrow> int option
     \<Rightarrow> exc + job_param list" where
  "get_calcs_query to_bool s request_get_dict user_name id' =
     (let job_params0 =
            order_by_desc_id
              (filter_job s (\<lambda>j. job_user_name j = user_name)
                 (filter (\<lambda>jp. jp_name jp = ''description'') (job_params s)));
          job_params1 =
            (case id' of
               None \<Rightarrow> job_params0
             | Some i \<Rightarrow> filter (\<lambda>jp. jp_job_id jp = i) job_params0);
          job_params2 =
            (case request_get_dict ''job_type'' of
               None \<Rightarrow> job_params1
             | Some jt \<Rightarrow>
                 filter_job s (\<lambda>j. (job_hazard_calculation j = None) = (jt = ''hazard''))
                   job_params1)
      in case (case request_get_dict ''is_running'' of
                 None \<Rightarrow> Inr job_params2
               | Some is_running \<Rightarrow>
                   (case to_bool is_running of
                      Inl e \<Rightarrow> Inl e
                    | Inr b \<Rightarrow> Inr (filter_job s (\<lambda>j. job_is_running j = b) job_params2))) of
           Inl e \<Rightarrow> Inl e
         | Inr job_params3 \<Rightarrow>
             (case request_get_dict ''relevant'' of
                None \<Rightarrow> Inr job_params3
              | Some relevant \<Rightarrow>
                  (case to_bool relevant of
                     Inl e \<Rightarrow> Inl e
                   | Inr b \<Rightarrow> Inr (filter_job s (\<lambda>j. job_relevant j = b) job_params3))))"

definition get_calcs ::
  "(string \<Rightarrow> exc + bool) \<Rightarrow> store \<Rightarrow> (string \<Rightarrow> string option) \<Rightarrow> string \<Rightarrow> int option
     \<Rightarrow> exc + calc_row list" where
  "get_calcs to_bool s request_get_dict user_name id' =
     (case get_calcs_query to_bool s request_get_dict user_name id' of
        Inl e \<Rightarrow> Inl e
      | Inr job_params' \<Rightarrow> calc_rows s job_params')"

text \<open>
  \<^verbatim>\<open>_get_base_url\<close>, and \<^verbatim>\<open>urlparse.urljoin\<close> for the one shape it is called with:
  a base that is a scheme and a host, and a relative path.
\<close>

definition get_base_url :: "request \<Rightarrow> string" where
  "get_base_url request =
     (if req_is_secure request then ''https://'' else ''http://'') @ req_HTTP_HOST request"

definition urljoin :: "string \<Rightarrow> string \<Rightarrow> string" where
  "urljoin base rel = base @ ''/'' @ rel"

definition calc_dict :: "string \<Rightarrow> calc_row \<Rightarrow> json" where
  "calc_dict base_url row =
     (case row of
        (hc_id, status, jtype, is_running, desc) \<Rightarrow>
          JObj [(''id'', JInt hc_id), (''status'', JStr status), (''job_type'', JStr jtype),
                (''is_running'', JBool is_running), (''description'', JStr desc),
                (''url'', JStr (urljoin base_url (''v1/calc/'' @ str_int hc_id)))])"

text \<open>
  \<^verbatim>\<open>calc(request, id=None)\<close>. With an id, \<^verbatim>\<open>[response_data] = response_data\<close>
  unpacks a list of exactly one element and raises \<^verbatim>\<open>ValueError\<close> on any other.
\<close>

definition calc :: "engine \<Rightarrow> world \<Rightarrow> request \<Rightarrow> int option \<Rightarrow> outcome \<times> world" where
  "calc eng w request id' =
     (let base_url = get_base_url request;
          user_name = req_username request
      in case get_calcs (boolean eng) (db w) (req_GET request) user_name id' of
           Inl e \<Rightarrow> (Raised e, w)
         | Inr calc_data \<Rightarrow>
             (let response_data = map (calc_dict base_url) calc_data
              in case id' of
                   None \<Rightarrow>
                     (Response (HttpResponse (JsonDumps (JList response_data)) (Some JSON) 200), w)
                 | Some _ \<Rightarrow>
                     (case response_data of
                        [d] \<Rightarrow> (Response (HttpResponse (JsonDumps d) (Some JSON) 200), w)
                      | _ \<Rightarrow> (Raised ValueError, w))))"

section \<open>Workspace stager\<close>

text \<open>
  The loop of \<^verbatim>\<open>_prepare_job\<close> over the uploaded files: each file is moved to the
  temporary directory under the name of the upload, and its new path joins
  \<^verbatim>\<open>inifiles\<close> when the name is a candidate. An exception of a move ends the loop.
\<close>

fun move_uploads ::
  "path \<Rightarrow> string list \<Rightarrow> uploaded_file list \<Rightarrow> path list \<Rightarrow> world
     \<Rightarrow> (exc + path list) \<times> world" where
  "move_uploads temp_dir candidates [] inifiles w = (Inr inifiles, w)"
| "move_uploads temp_dir candidates (each_file # rest) inifiles w =
     (let new_path = os_path_join temp_dir (up_name each_file)
      in case shutil_move (up_temporary_file_path each_file) new_path w of
           Inl e \<Rightarrow> (Inl e, w)
         | Inr w' \<Rightarrow>
             move_uploads temp_dir candidates rest
               (if up_name each_file \<in> set candidates then inifiles @ [new_path]
                else inifiles)
               w')"

text \<open>
  \<^verbatim>\<open>_prepare_job(request, hazard_output_id, hazard_job_id, candidates)\<close>. The loop
  runs over \<^verbatim>\<open>request.FILES.values()\<close>, which holds one file for each form field.
\<close>

definition prepare_job ::
  "engine \<Rightarrow> path \<Rightarrow> request \<Rightarrow> string option \<Rightarrow> string option \<Rightarrow> string list \<Rightarrow> world
     \<Rightarrow> (exc + path list) \<times> world" where
  "prepare_job eng tmp request hazard_output_id hazard_job_id candidates w =
     (let temp_dir = tmp;
          w1 = mkdtemp tmp w;
          inifiles = [];
          arch = files_get (req_FILES request) ''archive''
      in case arch of
           None \<Rightarrow>
             move_uploads temp_dir candidates (files_values (req_FILES request)) inifiles w1
         | Some a \<Rightarrow> extract_from_zip eng a candidates w1)"

section \<open>Dispatcher\<close>

definition DEFAULT_LOG_LEVEL :: string where
  "DEFAULT_LOG_LEVEL = ''progress''"

text \<open>
  \<^verbatim>\<open>submit_job\<close>: the job is created from the job file; when that fails the callback
  is notified and the exception is raised again with the rendered traceback as its
  message; otherwise the run is handed to the executor.
\<close>

definition submit_job ::
  "engine \<Rightarrow> path \<Rightarrow> path \<Rightarrow> string \<Rightarrow> string \<Rightarrow> string option \<Rightarrow> string option
     \<Rightarrow> string option \<Rightarrow> string option \<Rightarrow> string option \<Rightarrow> world
     \<Rightarrow> ((exc \<times> string) + int) \<times> world" where
  "submit_job eng job_file temp_dir dbname user_name callback_url foreign_calc_id
       hazard_output_id hazard_job_id logfile w =
     (let ini = os_path_join temp_dir job_file
      in case safely_call (format_exc eng)
                (job_from_file eng ini user_name DEFAULT_LOG_LEVEL []
                   hazard_output_id hazard_job_id w) of
           (Inl (job, exctype), w1) \<Rightarrow>
             (Inl (exctype, job), update_calculation callback_url ''failed'' job w1)
         | (Inr job, w1) \<Rightarrow>
             (Inr job,
              w1\<lparr>submitted := submitted w1 @
                    [\<lparr>task_job_id = job, task_temp_dir = temp_dir,
                      task_callback_url = callback_url,
                      task_foreign_calc_id = foreign_calc_id,
                      task_dbname = dbname, task_logfile = logfile\<rparr>]\<rparr>))"

text \<open>Truthiness of an optional form field: \<^verbatim>\<open>None\<close> and the empty string are false.\<close>

definition truthy_field :: "string option \<Rightarrow> bool" where
  "truthy_field v = (case v of None \<Rightarrow> False | Some s \<Rightarrow> s \<noteq> [])"

definition candidates_for :: "bool \<Rightarrow> string list" where
  "candidates_for is_risk =
     (if is_risk then [''job_risk.ini'', ''job.ini''] else [''job_hazard.ini'', ''job.ini''])"

definition no_file_msg :: "string list \<Rightarrow> string" where
  "no_file_msg candidates = ''Could not find any file of the form '' @ str_tuple candidates"

text \<open>
  \<^verbatim>\<open>run_calc(request)\<close>. A missing \<^verbatim>\<open>database\<close> field raises inside the
  \<^verbatim>\<open>try\<close>, with the quoted key as the message of the exception.
\<close>

definition run_calc :: "engine \<Rightarrow> path \<Rightarrow> request \<Rightarrow> world \<Rightarrow> outcome \<times> world" where
  "run_calc eng tmp request w =
     (let callback_url = req_POST request ''callback_url'';
          foreign_calc_id = req_POST request ''foreign_calculation_id'';
          hazard_output_id = req_POST request ''hazard_output_id'';
          hazard_job_id = req_POST request ''hazard_job_id'';
          is_risk = (truthy_field hazard_output_id \<or> truthy_field hazard_job_id);
          candidates = candidates_for is_risk
      in case safely_call (format_exc eng)
                (prepare_job eng tmp request hazard_output_id hazard_job_id candidates w) of
           (Inl (einfo, exctype), w1) \<Rightarrow>
             (Response (HttpResponse (JsonDumps (JList (map JStr (splitlines einfo))))
                          (Some JSON) 500),
              update_calculation callback_url ''failed'' einfo w1)
         | (Inr einfo, w1) \<Rightarrow>
             (case einfo of
                [] \<Rightarrow>
                  (let msg = no_file_msg candidates
                   in (Response (HttpResponse (JsonDumps (JList [JStr msg])) (Some JSON) 500),
                       logging_error msg w1))
              | job_file # _ \<Rightarrow>
                  (let temp_dir = os_path_dirname job_file;
                       user_name = req_username request;
                       submission =
                         (case req_POST request ''database'' of
                            None \<Rightarrow> (Inl (KeyError, py_repr ''database''), w1)
                          | Some dbname \<Rightarrow>
                              submit_job eng job_file temp_dir dbname user_name callback_url
                                foreign_calc_id hazard_output_id hazard_job_id None w1)
                   in case submission of
                        (Inl (exctype, msg), w2) \<Rightarrow>
                          (Response (HttpResponse (JsonDumps (JList (map JStr (splitlines msg))))
                                       (Some JSON) 500),
                           logging_error msg w2)
                      | (Inr job, w2) \<Rightarrow>
                          (case get_pk (jobs (db w2)) job of
                             Inl e \<Rightarrow> (Raised e, w2)
                           | Inr calc_job \<Rightarrow>
                               (Response (HttpResponse
                                  (JsonDumps (JObj (get_oqparam eng job w2 @
                                     [(''job_id'', JInt job),
                                      (''status'', JStr (job_status calc_job))])))
                                  (Some JSON) 200),
                                w2)))))"

section \<open>Export negotiator\<close>

text \<open>
  \<^verbatim>\<open>get_result(request, result_id)\<close>. The \<^verbatim>\<open>finally\<close> clause that removes the
  temporary directory belongs to the \<^verbatim>\<open>try\<close> that reads the exported file; the exit
  for an unsupported export and an exception of the exporter come before it.
\<close>

definition get_result :: "engine \<Rightarrow> path \<Rightarrow> request \<Rightarrow> int \<Rightarrow> world \<Rightarrow> outcome \<times> world" where
  "get_result eng tmp request result_id w =
     (case (case get_pk (outputs (db w)) result_id of
              Inl e \<Rightarrow> Inl e
            | Inr out \<Rightarrow>
                (case get_pk (jobs (db w)) (out_oq_job out) of
                   Inl e \<Rightarrow> Inl e
                 | Inr job \<Rightarrow> Inr (out, job))) of
        Inl e \<Rightarrow>
          (if e = DoesNotExist then (Response (HttpResponseNotFound []), w)
           else (Raised e, w))
      | Inr (out, job) \<Rightarrow>
          if job_status job \<noteq> ''complete'' then (Response (HttpResponseNotFound []), w)
          else
            (let etype = req_GET request ''export_type'';
                 export_type =
                   (case etype of
                      None \<Rightarrow> DEFAULT_EXPORT_TYPE
                    | Some t \<Rightarrow> if t = [] then DEFAULT_EXPORT_TYPE else t);
                 dload = req_GET request ''dload'';
                 download =
                   (case dload of
                      None \<Rightarrow> etype \<noteq> None
                    | Some d \<Rightarrow> d = ''true'');
                 tmpdir = tmp;
                 w1 = mkdtemp tmp w
             in case export eng result_id tmpdir export_type w1 of
                  (Inl e, w2) \<Rightarrow> (Raised e, w2)
                | (Inr None, w2) \<Rightarrow>
                    (Response (HttpResponseNotFound
                       (''export_type='' @ export_type @ '' is not supported for output_type=''
                        @ out_output_type out)),
                     w2)
                | (Inr (Some exported), w2) \<Rightarrow>
                    (let ctype =
                           (case EXPORT_CONTENT_TYPE_MAP export_type of
                              None \<Rightarrow> DEFAULT_CONTENT_TYPE
                            | Some t \<Rightarrow> t);
                         fname = ''output-'' @ str_int result_id @ ''-''
                                   @ os_path_basename exported;
                         body_result =
                           (case fs_files w2 exported of
                              None \<Rightarrow> Raised IOError
                            | Some data \<Rightarrow>
                                Response
                                  ((HttpResponse (Text data) (Some ctype) 200)
                                     \<lparr>headers :=
                                        [(''Content-Length'', str_nat (length data))] @
                                        (if download
                                         then [(''Content-Disposition'',
                                                ''attachment; filename='' @ fname)]
                                         else [])\<rparr>))
                     in case rmtree tmpdir w2 of
                          Inl e \<Rightarrow> (Raised e, w2)
                        | Inr w3 \<Rightarrow> (body_result, w3))))"

section \<open>Notions used in the statements\<close>

text \<open>The log entries of a job, in storage order.\<close>

definition job_logs :: "world \<Rightarrow> int \<Rightarrow> log list" where
  "job_logs w calc_id = filter (\<lambda>l. log_job_id l = calc_id) (logs (db w))"

text \<open>The status of the response of an outcome, when it is a response.\<close>

definition status_of :: "outcome \<Rightarrow> nat option" where
  "status_of r = (case r of Response resp \<Rightarrow> Some (status_code resp) | Raised e \<Rightarrow> None)"

text \<open>The response with status 200 that carries a JSON value.\<close>

definition json_ok :: "json \<Rightarrow> http_response" where
  "json_ok v = HttpResponse (JsonDumps v) (Some JSON) 200"

text \<open>
  The entries a log-slice request answers with, when it answers with a list; and the
  concatenation of the answers of two requests.
\<close>

definition slice_entries :: "world \<Rightarrow> int \<Rightarrow> pyval \<Rightarrow> pyval \<Rightarrow> json list option" where
  "slice_entries w calc_id start stop =
     (case fst (get_log_slice w calc_id start stop) of
        Response r \<Rightarrow>
          (case content r of JsonDumps (JList rows) \<Rightarrow> Some rows | _ \<Rightarrow> None)
      | Raised e \<Rightarrow> None)"

definition concat_entries :: "json list option \<Rightarrow> json list option \<Rightarrow> json list option" where
  "concat_entries a b =
     (case a of
        None \<Rightarrow> None
      | Some xs \<Rightarrow> (case b of None \<Rightarrow> None | Some ys \<Rightarrow> Some (xs @ ys)))"



text \<open>
  What \<^verbatim>\<open>run_calc\<close> computes on its way: whether the request is for a risk job, its
  candidate names, the outcome of staging the uploads (\<^verbatim>\<open>_prepare_job\<close> with the
  arguments \<^verbatim>\<open>run_calc\<close> passes), and the outcome of loading the job definition
  (\<^verbatim>\<open>job_from_file\<close> with the arguments \<^verbatim>\<open>submit_job\<close> passes). And the response
  with a JSON list of strings.
\<close>

definition is_risk :: "request \<Rightarrow> bool" where
  "is_risk request =
     (truthy_field (req_POST request ''hazard_output_id'') \<or>
      truthy_field (req_POST request ''hazard_job_id''))"

definition candidates :: "request \<Rightarrow> string list" where
  "candidates request = candidates_for (is_risk request)"

definition staging :: "engine \<Rightarrow> path \<Rightarrow> request \<Rightarrow> world \<Rightarrow> (exc + path list) \<times> world" where
  "staging eng tmp request w =
     prepare_job eng tmp request (req_POST request ''hazard_output_id'')
       (req_POST request ''hazard_job_id'') (candidates request) w"

definition loading :: "engine \<Rightarrow> request \<Rightarrow> path \<Rightarrow> world \<Rightarrow> (exc + int) \<times> world" where
  "loading eng request job_file w =
     job_from_file eng (os_path_join (os_path_dirname job_file) job_file)
       (req_username request) DEFAULT_LOG_LEVEL [] (req_POST request ''hazard_output_id'')
       (req_POST request ''hazard_job_id'') w"

definition json_lines :: "nat \<Rightarrow> string list \<Rightarrow> http_response" where
  "json_lines st ls = HttpResponse (JsonDumps (JList (map JStr ls))) (Some JSON) st"

text \<open>
  For staging: the files of a request that \<^verbatim>\<open>request.FILES.values()\<close> holds; a
  file name as the upload handler delivers it (a base name: not empty, no slash); a
  directory name that \<^verbatim>\<open>tempfile.mkdtemp\<close> may return for a world (not empty, no
  trailing slash, not a directory yet, and nothing exists under it); and the paths of
  the candidates among the files when they lie in the directory.
\<close>

definition uploads :: "request \<Rightarrow> uploaded_file list" where
  "uploads request = files_values (req_FILES request)"

definition valid_name :: "string \<Rightarrow> bool" where
  "valid_name n = (n \<noteq> [] \<and> CHR ''/'' \<notin> set n)"

definition fresh_dir :: "path \<Rightarrow> world \<Rightarrow> bool" where
  "fresh_dir tmp w =
     (tmp \<noteq> [] \<and> last tmp \<noteq> CHR ''/'' \<and> tmp \<notin> set (fs_dirs w) \<and>
      (\<forall>p. under tmp p \<longrightarrow> fs_files w p = None \<and> p \<notin> set (fs_dirs w)))"

definition staged_paths :: "path \<Rightarrow> string list \<Rightarrow> uploaded_file list \<Rightarrow> path list" where
  "staged_paths tmp cands files =
     map (\<lambda>f. os_path_join tmp (up_name f)) (filter (\<lambda>f. up_name f \<in> set cands) files)"

text \<open>
  For the listing: the description row \<open>jp\<close> is selected when its job exists, belongs
  to the user, and meets the id filter and each of the filters \<^verbatim>\<open>job_type\<close>,
  \<^verbatim>\<open>is_running\<close> and \<^verbatim>\<open>relevant\<close> that the query supplies; a supplied boolean
  parses when \<^verbatim>\<open>valid.boolean\<close> accepts it; a row of the answer belongs to a
  description row when it reports the job of that row; and a store holds at most one
  description per job.
\<close>

definition selected ::
  "(string \<Rightarrow> exc + bool) \<Rightarrow> store \<Rightarrow> (string \<Rightarrow> string option) \<Rightarrow> string \<Rightarrow> int option
     \<Rightarrow> job_param \<Rightarrow> bool" where
  "selected to_bool s q user id' jp =
     (jp_name jp = ''description'' \<and>
      (case jobs s (jp_job_id jp) of
         None \<Rightarrow> False
       | Some j \<Rightarrow>
           job_user_name j = user \<and>
           (case id' of None \<Rightarrow> True | Some i \<Rightarrow> jp_job_id jp = i) \<and>
           (case q ''job_type'' of
              None \<Rightarrow> True
            | Some jt \<Rightarrow> (job_hazard_calculation j = None) = (jt = ''hazard'')) \<and>
           (case q ''is_running'' of
              None \<Rightarrow> True
            | Some v \<Rightarrow> to_bool v = Inr (job_is_running j)) \<and>
           (case q ''relevant'' of
              None \<Rightarrow> True
            | Some v \<Rightarrow> to_bool v = Inr (job_relevant j))))"



definition one_description_per_job :: "store \<Rightarrow> bool" where
  "one_description_per_job s =
     distinct (map jp_job_id (filter (\<lambda>jp. jp_name jp = ''description'') (job_params s)))"

section \<open>Example inputs\<close>

definition ex_log :: "int \<Rightarrow> string \<Rightarrow> string \<Rightarrow> log" where
  "ex_log j lvl msg =
     \<lparr>log_job_id = j, log_timestamp = ''2015-06-01T12:00:00.000000'', log_level = lvl,
      log_process = ''1234'', log_message = msg\<rparr>"

definition ex_job :: "string \<Rightarrow> string \<Rightarrow> oq_job" where
  "ex_job st usr =
     \<lparr>job_status = st, job_user_name = usr, job_hazard_calculation = None,
      job_is_running = False, job_relevant = True\<rparr>"

text \<open>
  A store with a complete job 1 and an executing job 2 of the same user, each with an
  output, and three log entries of job 1 around one of job 2.
\<close>

definition ex_store :: store where
  "ex_store =
     \<lparr>jobs = [1 \<mapsto> ex_job ''complete'' ''alice'', 2 \<mapsto> ex_job ''executing'' ''alice''],
      job_params = [],
      logs = [ex_log 1 ''INFO'' ''start'', ex_log 2 ''INFO'' ''other'',
              ex_log 1 ''INFO'' ''run'', ex_log 1 ''INFO'' ''done''],
      outputs =
        [10 \<mapsto> \<lparr>out_oq_job = 1, out_output_type = ''hazard_curve'', out_display_name = ''hc''\<rparr>,
         20 \<mapsto> \<lparr>out_oq_job = 2, out_output_type = ''hazard_curve'', out_display_name = ''hc2''\<rparr>]\<rparr>"

definition ex_world :: world where
  "ex_world =
     \<lparr>db = ex_store, fs_files = Map.empty, fs_dirs = [], notifications = [],
      error_log = [], submitted = []\<rparr>"

text \<open>
  An engine whose exporter supports \<^verbatim>\<open>xml\<close> only and writes the exported file into
  the target directory, and whose other collaborators fail.
\<close>

definition ex_export :: "int \<Rightarrow> path \<Rightarrow> string \<Rightarrow> world \<Rightarrow> (exc + path option) \<times> world" where
  "ex_export result_id target export_type w =
     (if export_type = ''xml''
      then (Inr (Some (os_path_join target ''hazard.xml'')),
            w\<lparr>fs_files := (fs_files w)(os_path_join target ''hazard.xml'' \<mapsto> ''<nrml/>'')\<rparr>)
      else (Inr None, w))"

definition ex_boolean :: "string \<Rightarrow> exc + bool" where
  "ex_boolean s =
     (if s = ''true'' then Inr True else if s = ''false'' then Inr False else Inl ValueError)"

definition ex_engine :: engine where
  "ex_engine =
     \<lparr>extract_from_zip = (\<lambda>a c w. (Inl IOError, w)),
      job_from_file = (\<lambda>ini usr lvl exports ho hj w. (Inl EngineError, w)),
      get_oqparam = (\<lambda>j w. []),
      export = ex_export,
      boolean = ex_boolean,
      format_exc = (\<lambda>e. ''Traceback (most recent call last)'')\<rparr>"

text \<open>A request of user alice with the given query parameters.\<close>

definition ex_request :: "(string \<Rightarrow> string option) \<Rightarrow> request" where
  "ex_request q =
     \<lparr>req_GET = q, req_POST = Map.empty, req_FILES = [], req_username = ''alice'',
      req_is_secure = False, req_HTTP_HOST = ''localhost:8000''\<rparr>"

text \<open>
  Upload requests of user alice: one with a file that is no candidate, one whose
  temporary file is lost, and one with a job file and a model, in a world that holds
  the temporary files of the uploads.
\<close>

definition ex_upload :: "string \<Rightarrow> path \<Rightarrow> uploaded_file" where
  "ex_upload n p = \<lparr>up_name = n, up_temporary_file_path = p\<rparr>"

definition ex_field :: "string \<Rightarrow> uploaded_file list \<Rightarrow> uploaded_file \<Rightarrow> upload_field" where
  "ex_field n earlier f = \<lparr>field_name = n, field_earlier = earlier, field_last = f\<rparr>"

definition ex_post :: "(string \<Rightarrow> string option) \<Rightarrow> upload_field list \<Rightarrow> request" where
  "ex_post form files =
     \<lparr>req_GET = Map.empty, req_POST = form, req_FILES = files, req_username = ''alice'',
      req_is_secure = False, req_HTTP_HOST = ''localhost:8000''\<rparr>"

definition ex_upload_world :: world where
  "ex_upload_world =
     ex_world\<lparr>fs_files := [''/var/upload/u1'' \<mapsto> ''[general]'', ''/var/upload/u2'' \<mapsto> ''<nrml/>'']\<rparr>"

definition ex_callback :: string where
  "ex_callback = ''http://client.example/notify''"

definition ex_tmp :: path where
  "ex_tmp = ''/tmp/tmpB''"

definition ex_request_other :: request where
  "ex_request_other =
     ex_post [''callback_url'' \<mapsto> ex_callback]
       [ex_field ''file1'' [] (ex_upload ''readme.txt'' ''/var/upload/u1'')]"

definition ex_request_lost :: request where
  "ex_request_lost =
     ex_post [''callback_url'' \<mapsto> ex_callback]
       [ex_field ''file1'' [] (ex_upload ''job.ini'' ''/var/upload/lost'')]"

definition ex_request_job :: request where
  "ex_request_job =
     ex_post [''callback_url'' \<mapsto> ex_callback, ''database'' \<mapsto> ''platform'']
       [ex_field ''file1'' [] (ex_upload ''job.ini'' ''/var/upload/u1''),
        ex_field ''file2'' [] (ex_upload ''model.xml'' ''/var/upload/u2'')]"

text \<open>An upload request with two files under one form field, the job file first.\<close>

definition ex_request_same_field :: request where
  "ex_request_same_field =
     ex_post Map.empty
       [ex_field ''file'' [ex_upload ''job.ini'' ''/var/upload/u1'']
          (ex_upload ''model.xml'' ''/var/upload/u2'')]"





section \<open>Log slices\<close>

lemma qs_slice_not_missing: "qs_slice start stop rows \<noteq> Inl DoesNotExist"
  by (cases start; cases stop) (auto simp: qs_slice_def split: option.splits)

lemma get_log_slice_rows:
  assumes "\<not> negative start" and "\<not> negative stop"
    and "py_index (py_or start (PyInt 0)) = Inr lo"
    and "py_index (py_or stop PyNone) = Inr hi"
  shows "get_log_slice w calc_id start stop =
           (Response (json_ok (JList (map log_to_json
              (rows_between lo hi (job_logs w calc_id))))), w)"
proof -
  have "\<not> negative (py_or start (PyInt 0))" "\<not> negative (py_or stop PyNone)"
    using assms(1,2) by (simp_all add: py_or_def)
  then show ?thesis
    using assms(3,4) by (simp add: get_log_slice_def qs_slice_def job_logs_def json_ok_def)
qed

lemma get_log_slice_world: "snd (get_log_slice w calc_id start stop) = w"
  by (simp add: get_log_slice_def split: sum.splits)

text \<open>
  The branch of \<^verbatim>\<open>get_log_slice\<close> that answers 404 is never taken: filtering and
  slicing the log table raise no \<^verbatim>\<open>ObjectDoesNotExist\<close>.
\<close>

lemma get_log_slice_never_404:
  "status_of (fst (get_log_slice w calc_id start stop)) \<noteq> Some 404"
proof (cases "qs_slice (py_or start (PyInt 0)) (py_or stop PyNone)
                (filter (\<lambda>l. log_job_id l = calc_id) (logs (db w)))")
  case (Inl e)
  then have "e \<noteq> DoesNotExist" using qs_slice_not_missing by metis
  then show ?thesis using Inl by (simp add: get_log_slice_def status_of_def)
next
  case (Inr rows)
  then show ?thesis by (simp add: get_log_slice_def status_of_def HttpResponse_def)
qed

text \<open>
  Claim C3. The claim asks for a 404 response exactly when the job does not exist. The
  view never looks the job up: for job 7, which the example store does not hold, a
  log-slice request with both bounds absent is answered with status 200 and the empty
  list.
\<close>

theorem get_log_slice_missing_job:
  "jobs (db ex_world) 7 = None \<and>
   get_log_slice ex_world 7 (PyStr []) (PyStr []) = (Response (json_ok (JList [])), ex_world)"
  by (simp add: get_log_slice_def py_or_def qs_slice_def rows_between_def json_ok_def
      ex_world_def ex_store_def ex_log_def)

text \<open>
  Claim C10. When the stop argument of a log-slice request is falsy (the integer 0, the
  empty string or \<^verbatim>\<open>None\<close>) and the start argument denotes the offset \<open>k\<close>, the
  answer is the whole log of the job from entry \<open>k\<close> onward, with status 200: a falsy
  stop means no upper bound, not the empty range.
\<close>

theorem get_log_slice_falsy_stop:
  assumes "\<not> truthy stop" and "\<not> negative start"
    and "py_index (py_or start (PyInt 0)) = Inr (Some k)"
  shows "get_log_slice w calc_id start stop =
           (Response (json_ok (JList (map log_to_json (drop k (job_logs w calc_id))))), w)"
proof -
  have "py_or stop PyNone = PyNone" using assms(1) by (simp add: py_or_def)
  moreover have "\<not> negative stop" using assms(1) by (cases stop) auto
  ultimately show ?thesis
    using get_log_slice_rows [OF assms(2) _ assms(3), of stop None w calc_id]
    by (simp add: rows_between_def)
qed

theorem get_log_slice_falsy_stop_witness:
  "\<not> truthy (PyInt 0) \<and> \<not> truthy (PyStr []) \<and>
   get_log_slice ex_world 1 (PyInt 1) (PyInt 0) =
     (Response (json_ok (JList [log_to_json (ex_log 1 ''INFO'' ''run''),
                                log_to_json (ex_log 1 ''INFO'' ''done'')])), ex_world) \<and>
   get_log_slice ex_world 1 (PyStr ''1'') (PyStr []) =
     (Response (json_ok (JList [log_to_json (ex_log 1 ''INFO'' ''run''),
                                log_to_json (ex_log 1 ''INFO'' ''done'')])), ex_world)"
  using get_log_slice_falsy_stop [of "PyInt 0" "PyInt 1" 1 ex_world 1]
    get_log_slice_falsy_stop [of "PyStr []" "PyStr ''1''" 1 ex_world 1]
  by (simp add: py_or_def nat_of_digits_def is_digit_def job_logs_def ex_world_def
      ex_store_def ex_log_def)

text \<open>
  Slices with integer bounds: for \<open>n \<ge> 1\<close> the slice from 0 to \<open>n\<close> followed by
  the slice from \<open>n\<close> to \<open>2 * n\<close> is the slice from 0 to \<open>2 * n\<close>. (The integer 0
  as a stop is falsy and means no upper bound.)
\<close>

lemma log_slice_concat_int:
  assumes "1 \<le> n" and "2 * n \<le> length (job_logs w calc_id)"
  shows "concat_entries (slice_entries w calc_id (PyInt 0) (PyInt (int n)))
           (slice_entries w calc_id (PyInt (int n)) (PyInt (int (2 * n))))
         = slice_entries w calc_id (PyInt 0) (PyInt (int (2 * n))) \<and>
         slice_entries w calc_id (PyInt 0) (PyInt (int (2 * n)))
         = Some (map log_to_json (take (2 * n) (job_logs w calc_id))) \<and>
         get_log_slice (snd (get_log_slice w calc_id start stop)) calc_id start stop
         = get_log_slice w calc_id start stop"
proof -
  let ?rows = "job_logs w calc_id"
  have a: "slice_entries w calc_id (PyInt 0) (PyInt (int n))
             = Some (map log_to_json (take n ?rows))"
    using assms(1)
      get_log_slice_rows [of "PyInt 0" "PyInt (int n)" "Some 0" "Some n" w calc_id]
    by (simp add: slice_entries_def py_or_def rows_between_def json_ok_def HttpResponse_def)
  have b: "slice_entries w calc_id (PyInt (int n)) (PyInt (int (2 * n)))
             = Some (map log_to_json (take n (drop n ?rows)))"
    using assms(1)
      get_log_slice_rows [of "PyInt (int n)" "PyInt (int (2 * n))" "Some n" "Some (2 * n)"
        w calc_id]
    by (simp add: slice_entries_def py_or_def rows_between_def json_ok_def HttpResponse_def)
  have c: "slice_entries w calc_id (PyInt 0) (PyInt (int (2 * n)))
             = Some (map log_to_json (take (2 * n) ?rows))"
    using assms(1)
      get_log_slice_rows [of "PyInt 0" "PyInt (int (2 * n))" "Some 0" "Some (2 * n)" w calc_id]
    by (simp add: slice_entries_def py_or_def rows_between_def json_ok_def HttpResponse_def)
  have d: "take n ?rows @ take n (drop n ?rows) = take (2 * n) ?rows"
    by (simp add: take_add mult_2)
  have e: "map log_to_json (take n ?rows) @ map log_to_json (take n (drop n ?rows))
          = map log_to_json (take (2 * n) ?rows)"
    using d by (metis map_append)
  have f: "concat_entries (Some xs) (Some ys) = Some (xs @ ys)" for xs ys
    by (simp add: concat_entries_def)
  have "concat_entries (slice_entries w calc_id (PyInt 0) (PyInt (int n)))
           (slice_entries w calc_id (PyInt (int n)) (PyInt (int (2 * n))))
         = slice_entries w calc_id (PyInt 0) (PyInt (int (2 * n)))"
    unfolding a b c f e by (rule refl)
  moreover have "get_log_slice (snd (get_log_slice w calc_id start stop)) calc_id start stop
         = get_log_slice w calc_id start stop"
    by (simp add: get_log_slice_world)
  ultimately show ?thesis using c by blast
qed

text \<open>
  The bounds of a log-slice request come from the URL as strings of decimal digits.
  The digits of a number are a string that is not empty, hence truthy, and that
  \<^verbatim>\<open>int()\<close> reads back as the number; so the slice between two such bounds holds
  the entries of the half-open range.
\<close>

lemma digit_char:
  assumes "d < 10"
  shows "of_char (char_of (48 + d :: nat)) = (48 + d :: nat)"
  using assms by (simp add: of_char_of)

lemma str_nat_digits:
  "str_nat n \<noteq> [] \<and> list_all is_digit (str_nat n) \<and>
   foldl (\<lambda>acc c. 10 * acc + (of_char c - 48)) 0 (str_nat n) = n"
proof (induction n rule: str_nat.induct)
  case (1 n)
  show ?case
  proof (cases "n < 10")
    case True
    then show ?thesis
      by (subst (1 2 3) str_nat.simps) (simp add: is_digit_def digit_char)
  next
    case False
    have m: "n mod 10 < 10" by simp
    from False 1 have ih: "str_nat (n div 10) \<noteq> []" "list_all is_digit (str_nat (n div 10))"
      "foldl (\<lambda>acc c. 10 * acc + (of_char c - 48)) 0 (str_nat (n div 10)) = n div 10"
      by simp_all
    have s: "str_nat n = str_nat (n div 10) @ [char_of (48 + n mod 10)]"
      using False by (subst str_nat.simps) simp
    have c: "is_digit (char_of (48 + n mod 10))"
      using m by (simp add: is_digit_def digit_char)
    have v: "of_char (char_of (48 + n mod 10)) - 48 = n mod 10"
      using m by (simp add: digit_char)
    show ?thesis
      unfolding s using ih c v by simp
  qed
qed

lemma nat_of_digits_str_nat: "nat_of_digits (str_nat n) = Some n"
  using str_nat_digits [of n] by (simp add: nat_of_digits_def)

lemma py_index_str_nat: "py_index (PyStr (str_nat n)) = Inr (Some n)"
  by (simp add: nat_of_digits_str_nat)

lemma truthy_str_nat: "truthy (PyStr (str_nat n))"
  using str_nat_digits [of n] by simp

lemma slice_entries_strings:
  "slice_entries w calc_id (PyStr (str_nat a)) (PyStr (str_nat b)) =
     Some (map log_to_json (take (b - a) (drop a (job_logs w calc_id))))"
proof -
  have "get_log_slice w calc_id (PyStr (str_nat a)) (PyStr (str_nat b)) =
           (Response (json_ok (JList (map log_to_json
              (rows_between (Some a) (Some b) (job_logs w calc_id))))), w)"
    by (rule get_log_slice_rows)
       (simp_all add: py_or_def truthy_str_nat py_index_str_nat del: py_index.simps truthy.simps)
  then show ?thesis
    by (simp add: slice_entries_def json_ok_def HttpResponse_def rows_between_def)
qed

lemma str_nat_small: "str_nat 0 = ''0''" "str_nat 1 = ''1''" "str_nat 2 = ''2''"
  by code_simp+

text \<open>
  Claim C9. For every \<open>n\<close> and every job whose log has at least \<open>2 * n\<close> entries,
  with the bounds written in decimal digits as the URL delivers them: the entries of
  the slice from 0 to \<open>n\<close> followed by those of the slice from \<open>n\<close> to \<open>2 * n\<close>
  are the entries of the slice from 0 to \<open>2 * n\<close>, which are the first \<open>2 * n\<close>
  entries of the job's log; and a log-slice request, whatever its bounds, leaves the
  world as it was, so that repeating it gives the same answer.
\<close>

theorem log_slice_concat:
  assumes "2 * n \<le> length (job_logs w calc_id)"
  shows "concat_entries (slice_entries w calc_id (PyStr (str_nat 0)) (PyStr (str_nat n)))
           (slice_entries w calc_id (PyStr (str_nat n)) (PyStr (str_nat (2 * n))))
         = slice_entries w calc_id (PyStr (str_nat 0)) (PyStr (str_nat (2 * n))) \<and>
         slice_entries w calc_id (PyStr (str_nat 0)) (PyStr (str_nat (2 * n)))
         = Some (map log_to_json (take (2 * n) (job_logs w calc_id))) \<and>
         get_log_slice (snd (get_log_slice w calc_id start stop)) calc_id start stop
         = get_log_slice w calc_id start stop"
proof -
  let ?rows = "job_logs w calc_id"
  have d: "take n ?rows @ take n (drop n ?rows) = take (2 * n) ?rows"
    by (simp add: take_add mult_2)
  have e: "map log_to_json (take n ?rows) @ map log_to_json (take n (drop n ?rows))
          = map log_to_json (take (2 * n) ?rows)"
    using d by (metis map_append)
  have f: "concat_entries (Some xs) (Some ys) = Some (xs @ ys)" for xs ys
    by (simp add: concat_entries_def)
  have g: "2 * n - n = n" by simp
  have "concat_entries (slice_entries w calc_id (PyStr (str_nat 0)) (PyStr (str_nat n)))
           (slice_entries w calc_id (PyStr (str_nat n)) (PyStr (str_nat (2 * n))))
         = slice_entries w calc_id (PyStr (str_nat 0)) (PyStr (str_nat (2 * n)))"
    unfolding slice_entries_strings f g diff_zero drop_0 e by (rule refl)
  moreover have "slice_entries w calc_id (PyStr (str_nat 0)) (PyStr (str_nat (2 * n)))
         = Some (map log_to_json (take (2 * n) ?rows))"
    unfolding slice_entries_strings diff_zero drop_0 by (rule refl)
  moreover have "get_log_slice (snd (get_log_slice w calc_id start stop)) calc_id start stop
         = get_log_slice w calc_id start stop"
    by (simp add: get_log_slice_world)
  ultimately show ?thesis by blast
qed

theorem log_slice_concat_witness:
  "2 * (1::nat) \<le> length (job_logs ex_world 1) \<and>
   concat_entries (slice_entries ex_world 1 (PyStr ''0'') (PyStr ''1''))
           (slice_entries ex_world 1 (PyStr ''1'') (PyStr ''2''))
         = slice_entries ex_world 1 (PyStr ''0'') (PyStr ''2'') \<and>
   slice_entries ex_world 1 (PyStr ''0'') (PyStr ''2'')
         = Some [log_to_json (ex_log 1 ''INFO'' ''start''),
                 log_to_json (ex_log 1 ''INFO'' ''run'')] \<and>
   2 * (0::nat) \<le> length (job_logs ex_world 1) \<and>
   concat_entries (slice_entries ex_world 1 (PyStr ''0'') (PyStr ''0''))
           (slice_entries ex_world 1 (PyStr ''0'') (PyStr ''0''))
         = slice_entries ex_world 1 (PyStr ''0'') (PyStr ''0'') \<and>
   slice_entries ex_world 1 (PyStr ''0'') (PyStr ''0'') = Some []"
proof -
  have h1: "2 * (1::nat) \<le> length (job_logs ex_world 1)"
    by (simp add: job_logs_def ex_world_def ex_store_def ex_log_def)
  have h0: "2 * (0::nat) \<le> length (job_logs ex_world 1)" by simp
  have r: "take (2 * (1::nat)) (job_logs ex_world 1)
             = [ex_log 1 ''INFO'' ''start'', ex_log 1 ''INFO'' ''run'']"
    by (simp add: job_logs_def ex_world_def ex_store_def ex_log_def)
  have m: "map log_to_json [ex_log 1 ''INFO'' ''start'', ex_log 1 ''INFO'' ''run'']
             = [log_to_json (ex_log 1 ''INFO'' ''start''),
                log_to_json (ex_log 1 ''INFO'' ''run'')]"
    by simp
  have t1: "2 * (1::nat) = 2" and t0: "2 * (0::nat) = 0" by simp_all
  have z: "map log_to_json (take 0 (job_logs ex_world 1)) = []" by simp
  from log_slice_concat [OF h1]
  have a: "concat_entries (slice_entries ex_world 1 (PyStr ''0'') (PyStr ''1''))
           (slice_entries ex_world 1 (PyStr ''1'') (PyStr ''2''))
         = slice_entries ex_world 1 (PyStr ''0'') (PyStr ''2'')"
    "slice_entries ex_world 1 (PyStr ''0'') (PyStr ''2'')
         = Some [log_to_json (ex_log 1 ''INFO'' ''start''),
                 log_to_json (ex_log 1 ''INFO'' ''run'')]"
    unfolding r m unfolding t1 str_nat_small by blast+
  from log_slice_concat [OF h0]
  have b: "concat_entries (slice_entries ex_world 1 (PyStr ''0'') (PyStr ''0''))
           (slice_entries ex_world 1 (PyStr ''0'') (PyStr ''0''))
         = slice_entries ex_world 1 (PyStr ''0'') (PyStr ''0'')"
    "slice_entries ex_world 1 (PyStr ''0'') (PyStr ''0'') = Some []"
    unfolding t0 z str_nat_small by blast+
  show ?thesis using h1 h0 a b by blast
qed

section \<open>Traceback\<close>

text \<open>
  Claim C2. The claim asks for a 404 response when the job has no CRITICAL log entry.
  Job 1 of the example store exists and has none: the exception of the lookup of the
  entry escapes the view, and no response is returned.
\<close>

theorem get_traceback_no_critical:
  "jobs (db ex_world) 1 = Some (ex_job ''complete'' ''alice'') \<and>
   get_traceback ex_world 1 = (Raised DoesNotExist, ex_world)"
  by (simp add: get_traceback_def get_pk_def objects_get_def ex_world_def ex_store_def ex_log_def)

text \<open>
  The other two cases of the traceback: a missing job is answered with 404, and the
  single CRITICAL entry of a job with its message split into lines.
\<close>

lemma get_traceback_missing_job:
  "jobs (db w) calc_id = None \<Longrightarrow>
   get_traceback w calc_id = (Response (HttpResponseNotFound []), w)"
  by (simp add: get_traceback_def get_pk_def)

lemma get_traceback_single:
  "jobs (db w) calc_id = Some j \<Longrightarrow>
   filter (\<lambda>l. log_job_id l = calc_id \<and> log_level l = ''CRITICAL'') (logs (db w)) = [l] \<Longrightarrow>
   get_traceback w calc_id =
     (Response (json_ok (JList (map JStr (splitlines (log_message l))))), w)"
  by (simp add: get_traceback_def get_pk_def objects_get_def json_ok_def)

section \<open>Export\<close>

text \<open>
  Claim C6. When no output has the requested id, or the job that owns the output is not
  complete (or is missing), the export answers 404 with an empty body and leaves the
  world as it was: no workspace is created and the exporter is not called. In
  particular the outputs of a job that is still executing are not exported.
\<close>

theorem get_result_not_found:
  assumes "outputs (db w) result_id = None \<or>
           (\<exists>out. outputs (db w) result_id = Some out \<and>
              (\<forall>job. jobs (db w) (out_oq_job out) = Some job \<longrightarrow> job_status job \<noteq> ''complete''))"
  shows "get_result eng tmp request result_id w = (Response (HttpResponseNotFound []), w)"
  using assms
  by (auto simp: get_result_def get_pk_def split: option.splits)

theorem get_result_not_found_witness:
  "outputs (db ex_world) 99 = None \<and>
   get_result ex_engine ''/tmp/tmpA'' (ex_request Map.empty) 99 ex_world
     = (Response (HttpResponseNotFound []), ex_world) \<and>
   outputs (db ex_world) 20 =
     Some \<lparr>out_oq_job = 2, out_output_type = ''hazard_curve'', out_display_name = ''hc2''\<rparr> \<and>
   jobs (db ex_world) 2 = Some (ex_job ''executing'' ''alice'') \<and>
   get_result ex_engine ''/tmp/tmpA'' (ex_request Map.empty) 20 ex_world
     = (Response (HttpResponseNotFound []), ex_world)"
  using get_result_not_found [of ex_world 99 ex_engine "''/tmp/tmpA''" "ex_request Map.empty"]
    get_result_not_found [of ex_world 20 ex_engine "''/tmp/tmpA''" "ex_request Map.empty"]
  by (simp add: ex_world_def ex_store_def ex_job_def)

text \<open>
  Claim C1. The claim asks for the temporary directory to be gone on every exit. For
  result 10 of the complete job 1 and the export type \<^verbatim>\<open>csv\<close>, which the exporter of
  the example does not support, the view answers 404 and the directory it created is
  still there: the return for an unsupported export precedes the \<^verbatim>\<open>try\<close> whose
  \<^verbatim>\<open>finally\<close> clause removes the directory.
\<close>

theorem get_result_unsupported_keeps_tmpdir:
  "get_result ex_engine ''/tmp/tmpA'' (ex_request [''export_type'' \<mapsto> ''csv'']) 10 ex_world
     = (Response (HttpResponseNotFound
                    ''export_type=csv is not supported for output_type=hazard_curve''),
        ex_world\<lparr>fs_dirs := [''/tmp/tmpA'']\<rparr>) \<and>
   ''/tmp/tmpA'' \<in> set (fs_dirs (snd (get_result ex_engine ''/tmp/tmpA''
                         (ex_request [''export_type'' \<mapsto> ''csv'']) 10 ex_world)))"
  by (simp add: get_result_def get_pk_def mkdtemp_def ex_engine_def ex_export_def ex_request_def
      ex_world_def ex_store_def ex_job_def)

text \<open>
  On the paths through the \<^verbatim>\<open>try\<close> the directory is removed: a successful
  \<^verbatim>\<open>rmtree\<close> leaves no such directory, and the successful export of result 10 as
  \<^verbatim>\<open>xml\<close> ends without any directory.
\<close>

lemma rmtree_removes: "rmtree d w = Inr w' \<Longrightarrow> d \<notin> set (fs_dirs w')"
  by (auto simp: rmtree_def split: if_splits)


lemma get_result_success_removes_tmpdir:
  "fs_dirs (snd (get_result ex_engine ''/tmp/tmpA''
             (ex_request [''export_type'' \<mapsto> ''xml'']) 10 ex_world)) = []"
  by (simp add: get_result_def get_pk_def mkdtemp_def rmtree_def ex_engine_def ex_export_def
      ex_request_def ex_world_def ex_store_def ex_job_def DEFAULT_EXPORT_TYPE_def
      os_path_join_def Let_def under_def)




section \<open>Dispatch\<close>

text \<open>The message for no candidate file contains each candidate name.\<close>

lemma sublist_candidates:
  "\<forall>c \<in> set (candidates_for r). sublist c (no_file_msg (candidates_for r))"
proof (cases r)
  case True
  have "sublist ''job_risk.ini'' (no_file_msg [''job_risk.ini'', ''job.ini''])"
    unfolding sublist_def no_file_msg_def str_tuple_def py_repr_def
    by (rule exI [of _ "''Could not find any file of the form ('' @ [CHR 0x27]"],
        rule exI [of _ "[CHR 0x27] @ '', '' @ [CHR 0x27] @ ''job.ini'' @ [CHR 0x27] @ '')''"]) simp
  moreover have "sublist ''job.ini'' (no_file_msg [''job_risk.ini'', ''job.ini''])"
    unfolding sublist_def no_file_msg_def str_tuple_def py_repr_def
    by (rule exI [of _ "''Could not find any file of the form ('' @ [CHR 0x27] @ ''job_risk.ini'' @ [CHR 0x27] @ '', '' @ [CHR 0x27]"],
        rule exI [of _ "[CHR 0x27] @ '')''"]) simp
  ultimately show ?thesis using True by (simp add: candidates_for_def)
next
  case False
  have "sublist ''job_hazard.ini'' (no_file_msg [''job_hazard.ini'', ''job.ini''])"
    unfolding sublist_def no_file_msg_def str_tuple_def py_repr_def
    by (rule exI [of _ "''Could not find any file of the form ('' @ [CHR 0x27]"],
        rule exI [of _ "[CHR 0x27] @ '', '' @ [CHR 0x27] @ ''job.ini'' @ [CHR 0x27] @ '')''"]) simp
  moreover have "sublist ''job.ini'' (no_file_msg [''job_hazard.ini'', ''job.ini''])"
    unfolding sublist_def no_file_msg_def str_tuple_def py_repr_def
    by (rule exI [of _ "''Could not find any file of the form ('' @ [CHR 0x27] @ ''job_hazard.ini'' @ [CHR 0x27] @ '', '' @ [CHR 0x27]"],
        rule exI [of _ "[CHR 0x27] @ '')''"]) simp
  ultimately show ?thesis using False by (simp add: candidates_for_def)
qed

text \<open>Moving the uploads sends no notification.\<close>

lemma shutil_move_notifications:
  "shutil_move src dst w = Inr w' \<Longrightarrow> notifications w' = notifications w"
  by (auto simp: shutil_move_def Let_def split: option.splits if_splits)

lemma move_uploads_notifications:
  "move_uploads d cs fs acc w = (r, w') \<Longrightarrow> notifications w' = notifications w"
proof (induction fs arbitrary: acc w)
  case Nil
  then show ?case by simp
next
  case (Cons f fs)
  then show ?case
    by (auto simp: Let_def split: sum.splits dest: shutil_move_notifications)
qed

text \<open>The three failures of a dispatch, as \<^verbatim>\<open>run_calc\<close> answers them.\<close>

lemma run_calc_no_candidates_aux:
  assumes "staging eng tmp request w = (Inr [], w1)"
  shows "run_calc eng tmp request w =
           (Response (json_lines 500 [no_file_msg (candidates request)]),
            logging_error (no_file_msg (candidates request)) w1)"
  using assms
  by (simp add: run_calc_def staging_def candidates_def is_risk_def safely_call_def
      json_lines_def Let_def)

lemma run_calc_staging_failure_aux:
  assumes "staging eng tmp request w = (Inl e, w1)"
  shows "run_calc eng tmp request w =
           (Response (json_lines 500 (splitlines (format_exc eng e))),
            update_calculation (req_POST request ''callback_url'') ''failed''
              (format_exc eng e) w1)"
  using assms
  by (simp add: run_calc_def staging_def candidates_def is_risk_def safely_call_def
      json_lines_def Let_def)

lemma run_calc_loader_failure_aux:
  assumes "staging eng tmp request w = (Inr (job_file # rest), w1)"
    and "req_POST request ''database'' = Some dbname"
    and "loading eng request job_file w1 = (Inl e, w2)"
  shows "run_calc eng tmp request w =
           (Response (json_lines 500 (splitlines (format_exc eng e))),
            logging_error (format_exc eng e)
              (update_calculation (req_POST request ''callback_url'') ''failed''
                 (format_exc eng e) w2))"
  using assms
  by (simp add: run_calc_def staging_def candidates_def is_risk_def safely_call_def
      json_lines_def Let_def submit_job_def loading_def)

text \<open>
  Claim C7. When staging succeeds with no candidate file, the dispatch answers with
  status 500 and one diagnostic line, which contains every candidate name, and it
  sends no notification: the notifications are those staging left, and those before
  the request when no archive was uploaded. Unlike that, when staging fails, or when
  loading the job definition fails, and a callback URL was supplied, the dispatch
  answers with status 500 and appends the failure notification for that URL.
\<close>

theorem run_calc_no_candidates:
  "(staging eng tmp request w = (Inr [], w1) \<longrightarrow>
      run_calc eng tmp request w =
        (Response (json_lines 500 [no_file_msg (candidates request)]),
         logging_error (no_file_msg (candidates request)) w1) \<and>
      (\<forall>c \<in> set (candidates request). sublist c (no_file_msg (candidates request))) \<and>
      notifications (snd (run_calc eng tmp request w)) = notifications w1 \<and>
      (files_get (req_FILES request) ''archive'' = None \<longrightarrow>
         notifications (snd (run_calc eng tmp request w)) = notifications w)) \<and>
   (staging eng tmp request w = (Inl e, w1) \<and>
    req_POST request ''callback_url'' = Some url \<longrightarrow>
      status_of (fst (run_calc eng tmp request w)) = Some 500 \<and>
      notifications (snd (run_calc eng tmp request w)) =
        notifications w1 @ [(url, ''failed'', format_exc eng e)]) \<and>
   (staging eng tmp request w = (Inr (job_file # rest), w1) \<and>
    req_POST request ''database'' = Some dbname \<and>
    loading eng request job_file w1 = (Inl e, w2) \<and>
    req_POST request ''callback_url'' = Some url \<longrightarrow>
      status_of (fst (run_calc eng tmp request w)) = Some 500 \<and>
      notifications (snd (run_calc eng tmp request w)) =
        notifications w2 @ [(url, ''failed'', format_exc eng e)])"
proof (intro conjI impI)
  assume st: "staging eng tmp request w = (Inr [], w1)"
  show "run_calc eng tmp request w =
        (Response (json_lines 500 [no_file_msg (candidates request)]),
         logging_error (no_file_msg (candidates request)) w1)"
    using st by (rule run_calc_no_candidates_aux)
  show "\<forall>c \<in> set (candidates request). sublist c (no_file_msg (candidates request))"
    unfolding candidates_def by (rule sublist_candidates)
  show n1: "notifications (snd (run_calc eng tmp request w)) = notifications w1"
    by (simp add: run_calc_no_candidates_aux [OF st] logging_error_def)
  assume na: "files_get (req_FILES request) ''archive'' = None"
  have "move_uploads tmp (candidates request) (files_values (req_FILES request)) []
          (mkdtemp tmp w) = (Inr [], w1)"
    using st na by (simp add: staging_def prepare_job_def)
  then have "notifications w1 = notifications (mkdtemp tmp w)"
    by (rule move_uploads_notifications)
  then show "notifications (snd (run_calc eng tmp request w)) = notifications w"
    using n1 by (simp add: mkdtemp_def)
next
  assume a: "staging eng tmp request w = (Inl e, w1) \<and>
             req_POST request ''callback_url'' = Some url"
  then show "status_of (fst (run_calc eng tmp request w)) = Some 500"
    by (simp add: run_calc_staging_failure_aux status_of_def json_lines_def HttpResponse_def)
  from a show "notifications (snd (run_calc eng tmp request w)) =
        notifications w1 @ [(url, ''failed'', format_exc eng e)]"
    by (simp add: run_calc_staging_failure_aux update_calculation_def)
next
  assume a: "staging eng tmp request w = (Inr (job_file # rest), w1) \<and>
    req_POST request ''database'' = Some dbname \<and>
    loading eng request job_file w1 = (Inl e, w2) \<and>
    req_POST request ''callback_url'' = Some url"
  then have r: "run_calc eng tmp request w =
           (Response (json_lines 500 (splitlines (format_exc eng e))),
            logging_error (format_exc eng e)
              (update_calculation (req_POST request ''callback_url'') ''failed''
                 (format_exc eng e) w2))"
    using run_calc_loader_failure_aux by blast
  show "status_of (fst (run_calc eng tmp request w)) = Some 500"
    by (simp add: r status_of_def json_lines_def HttpResponse_def)
  show "notifications (snd (run_calc eng tmp request w)) =
        notifications w2 @ [(url, ''failed'', format_exc eng e)]"
    using a by (simp add: r update_calculation_def logging_error_def)
qed

lemmas ex_staging_defs =
  staging_def prepare_job_def candidates_def is_risk_def candidates_for_def truthy_field_def
  mkdtemp_def shutil_move_def os_path_join_def ex_post_def ex_upload_def ex_upload_world_def
  ex_field_def files_get_def files_values_def
  ex_world_def ex_tmp_def ex_callback_def Let_def

theorem run_calc_no_candidates_witness:
  "fst (run_calc ex_engine ex_tmp ex_request_other ex_upload_world) =
     Response (json_lines 500 [no_file_msg [''job_hazard.ini'', ''job.ini'']]) \<and>
   notifications (snd (run_calc ex_engine ex_tmp ex_request_other ex_upload_world)) = [] \<and>
   notifications (snd (run_calc ex_engine ex_tmp ex_request_lost ex_upload_world)) =
     [(ex_callback, ''failed'', ''Traceback (most recent call last)'')] \<and>
   notifications (snd (run_calc ex_engine ex_tmp ex_request_job ex_upload_world)) =
     [(ex_callback, ''failed'', ''Traceback (most recent call last)'')]"
proof -
  let ?sa = "staging ex_engine ex_tmp ex_request_other ex_upload_world"
  let ?sb = "staging ex_engine ex_tmp ex_request_lost ex_upload_world"
  let ?sc = "staging ex_engine ex_tmp ex_request_job ex_upload_world"
  have "fst ?sa = Inr []"
    by (simp add: ex_request_other_def ex_staging_defs)
  then have sa: "?sa = (Inr [], snd ?sa)" by (metis prod.collapse)
  have ca: "candidates ex_request_other = [''job_hazard.ini'', ''job.ini'']"
    by (simp add: ex_request_other_def ex_staging_defs)
  have na: "files_get (req_FILES ex_request_other) ''archive'' = None"
    by (simp add: ex_request_other_def ex_post_def ex_field_def files_get_def)
  have "fst ?sb = Inl IOError" and nb: "notifications (snd ?sb) = []"
    by (simp_all add: ex_request_lost_def ex_staging_defs)
  then have sb: "?sb = (Inl IOError, snd ?sb)" by (metis prod.collapse)
  have cb: "req_POST ex_request_lost ''callback_url'' = Some ex_callback"
    by (simp add: ex_request_lost_def ex_post_def)
  have "fst ?sc = Inr [''/tmp/tmpB/job.ini'']" and nc: "notifications (snd ?sc) = []"
    by (simp_all add: ex_request_job_def ex_staging_defs)
  then have sc: "?sc = (Inr (''/tmp/tmpB/job.ini'' # []), snd ?sc)" by (metis prod.collapse)
  have cc: "req_POST ex_request_job ''callback_url'' = Some ex_callback"
    and dc: "req_POST ex_request_job ''database'' = Some ''platform''"
    by (simp_all add: ex_request_job_def ex_post_def)
  have lc: "loading ex_engine ex_request_job ''/tmp/tmpB/job.ini'' (snd ?sc)
              = (Inl EngineError, snd ?sc)"
    by (simp add: loading_def ex_engine_def)
  have fe: "format_exc ex_engine e = ''Traceback (most recent call last)''" for e
    by (simp add: ex_engine_def)
  have nw: "notifications ex_upload_world = []"
    by (simp add: ex_upload_world_def ex_world_def)
  note ta = run_calc_no_candidates [where eng = ex_engine and tmp = ex_tmp
      and request = ex_request_other and w = ex_upload_world and ?w1.0 = "snd ?sa"]
  from ta sa have "run_calc ex_engine ex_tmp ex_request_other ex_upload_world =
        (Response (json_lines 500 [no_file_msg (candidates ex_request_other)]),
         logging_error (no_file_msg (candidates ex_request_other)) (snd ?sa))"
    by blast
  then have a1: "fst (run_calc ex_engine ex_tmp ex_request_other ex_upload_world) =
             Response (json_lines 500 [no_file_msg [''job_hazard.ini'', ''job.ini'']])"
    unfolding ca by simp
  from ta sa na
  have "notifications (snd (run_calc ex_engine ex_tmp ex_request_other ex_upload_world))
          = notifications ex_upload_world"
    by blast
  then have a2:
    "notifications (snd (run_calc ex_engine ex_tmp ex_request_other ex_upload_world)) = []"
    unfolding nw .
  note tb = run_calc_no_candidates [where eng = ex_engine and tmp = ex_tmp
      and request = ex_request_lost and w = ex_upload_world and ?w1.0 = "snd ?sb"
      and e = IOError and url = ex_callback]
  from tb sb cb
  have "notifications (snd (run_calc ex_engine ex_tmp ex_request_lost ex_upload_world)) =
          notifications (snd ?sb) @ [(ex_callback, ''failed'', format_exc ex_engine IOError)]"
    by blast
  then have b:
    "notifications (snd (run_calc ex_engine ex_tmp ex_request_lost ex_upload_world)) =
       [(ex_callback, ''failed'', ''Traceback (most recent call last)'')]"
    unfolding nb fe by simp
  note tc = run_calc_no_candidates [where eng = ex_engine and tmp = ex_tmp
      and request = ex_request_job and w = ex_upload_world and ?w1.0 = "snd ?sc"
      and e = EngineError and url = ex_callback and job_file = "''/tmp/tmpB/job.ini''"
      and rest = "[]" and dbname = "''platform''" and ?w2.0 = "snd ?sc"]
  from tc sc cc dc lc
  have "notifications (snd (run_calc ex_engine ex_tmp ex_request_job ex_upload_world)) =
          notifications (snd ?sc) @ [(ex_callback, ''failed'', format_exc ex_engine EngineError)]"
    by blast
  then have c:
    "notifications (snd (run_calc ex_engine ex_tmp ex_request_job ex_upload_world)) =
       [(ex_callback, ''failed'', ''Traceback (most recent call last)'')]"
    unfolding nc fe by simp
  show ?thesis using a1 a2 b c by blast
qed

section \<open>Staging\<close>

text \<open>Paths in the temporary directory, and a move onto a path that is no directory.\<close>

lemma join_valid:
  assumes "tmp \<noteq> []" "last tmp \<noteq> CHR ''/''" "valid_name n"
  shows "os_path_join tmp n = tmp @ ''/'' @ n"
  using assms by (cases n) (auto simp: os_path_join_def valid_name_def)

lemma under_join: "under tmp (tmp @ ''/'' @ n)"
  by (simp add: under_def)

lemma not_under_self: "\<not> under tmp tmp"
  by (simp add: under_def prefix_def)

lemma shutil_move_file:
  "fs_files w src = Some data \<Longrightarrow> dst \<notin> set (fs_dirs w) \<Longrightarrow>
   shutil_move src dst w = Inr (w\<lparr>fs_files := ((fs_files w)(src := None))(dst \<mapsto> data)\<rparr>)"
  by (simp add: shutil_move_def)

text \<open>
  The loop over the uploads, for any world in which the temporary files of the uploads
  exist outside the directory and no directory lies under it: every move succeeds, the
  candidates' paths are appended in order, every temporary file is gone, the last file
  of each name is at its path in the directory, and no other path changes.
\<close>

lemma move_uploads_spec:
  assumes "tmp \<noteq> []" "last tmp \<noteq> CHR ''/''"
    and "\<forall>f \<in> set files. valid_name (up_name f)"
    and "distinct (map up_temporary_file_path files)"
    and "\<forall>f \<in> set files. fs_files w (up_temporary_file_path f) \<noteq> None \<and>
                            \<not> under tmp (up_temporary_file_path f)"
    and "\<forall>q \<in> set (fs_dirs w). \<not> under tmp q"
  shows "\<exists>w'. move_uploads tmp cands files acc w = (Inr (acc @ staged_paths tmp cands files), w') \<and>
           fs_dirs w' = fs_dirs w \<and>
           (\<forall>f \<in> set files. fs_files w' (up_temporary_file_path f) = None) \<and>
           (\<forall>xs f ys. files = xs @ f # ys \<and> up_name f \<notin> up_name ` set ys \<longrightarrow>
               fs_files w' (os_path_join tmp (up_name f)) = fs_files w (up_temporary_file_path f)) \<and>
           (\<forall>p. p \<notin> up_temporary_file_path ` set files \<and>
                p \<notin> (\<lambda>f. os_path_join tmp (up_name f)) ` set files \<longrightarrow>
                fs_files w' p = fs_files w p)"
  using assms(3-6)
proof (induction files arbitrary: w acc)
  case Nil
  then show ?case by (simp add: staged_paths_def)
next
  case (Cons f fs)
  let ?src = "up_temporary_file_path f"
  let ?dst = "os_path_join tmp (up_name f)"
  have dst: "?dst = tmp @ ''/'' @ up_name f"
    using Cons.prems(1) assms(1,2) by (simp add: join_valid)
  have udst: "under tmp ?dst" unfolding dst by (rule under_join)
  obtain data where data: "fs_files w ?src = Some data"
    using Cons.prems(3) by auto
  have nsrc: "\<not> under tmp ?src" using Cons.prems(3) by simp
  have sd: "?src \<noteq> ?dst" using udst nsrc by auto
  have "?dst \<notin> set (fs_dirs w)" using Cons.prems(4) udst by auto
  then have mv: "shutil_move ?src ?dst w =
      Inr (w\<lparr>fs_files := ((fs_files w)(?src := None))(?dst \<mapsto> data)\<rparr>)"
    using data by (rule shutil_move_file [rotated])
  let ?w1 = "w\<lparr>fs_files := ((fs_files w)(?src := None))(?dst \<mapsto> data)\<rparr>"
  let ?acc1 = "if up_name f \<in> set cands then acc @ [?dst] else acc"
  have p1: "\<forall>g \<in> set fs. valid_name (up_name g)" using Cons.prems(1) by simp
  have p2: "distinct (map up_temporary_file_path fs)" using Cons.prems(2) by simp
  have src_not_src: "?src \<notin> up_temporary_file_path ` set fs"
    using Cons.prems(2) by simp
  have s1: "\<forall>g \<in> set fs. up_temporary_file_path g \<noteq> ?src"
    using src_not_src by (metis imageI)
  have s2: "\<forall>g \<in> set fs. up_temporary_file_path g \<noteq> ?dst"
    using Cons.prems(3) udst by force
  have srcs: "\<forall>g \<in> set fs. up_temporary_file_path g \<noteq> ?src \<and> up_temporary_file_path g \<noteq> ?dst"
    using s1 s2 by blast
  have p3: "\<forall>g \<in> set fs. fs_files ?w1 (up_temporary_file_path g) \<noteq> None \<and>
                            \<not> under tmp (up_temporary_file_path g)"
    using Cons.prems(3) srcs by simp
  have p4: "\<forall>q \<in> set (fs_dirs ?w1). \<not> under tmp q" using Cons.prems(4) by simp
  from Cons.IH [OF p1 p2 p3 p4, of ?acc1]
  obtain w' where
    r: "move_uploads tmp cands fs ?acc1 ?w1 = (Inr (?acc1 @ staged_paths tmp cands fs), w')"
    and d: "fs_dirs w' = fs_dirs ?w1"
    and gone: "\<forall>g \<in> set fs. fs_files w' (up_temporary_file_path g) = None"
    and kept: "\<forall>xs g ys. fs = xs @ g # ys \<and> up_name g \<notin> up_name ` set ys \<longrightarrow>
               fs_files w' (os_path_join tmp (up_name g)) = fs_files ?w1 (up_temporary_file_path g)"
    and frame: "\<forall>p. p \<notin> up_temporary_file_path ` set fs \<and>
                p \<notin> (\<lambda>g. os_path_join tmp (up_name g)) ` set fs \<longrightarrow>
                fs_files w' p = fs_files ?w1 p"
    by blast
  have dsts: "\<forall>g \<in> set fs. os_path_join tmp (up_name g) = tmp @ ''/'' @ up_name g"
    using p1 assms(1,2) by (simp add: join_valid)
  have src_not_dst: "?src \<notin> (\<lambda>g. os_path_join tmp (up_name g)) ` set fs"
    using dsts nsrc under_join by auto
  have c1: "move_uploads tmp cands (f # fs) acc w =
              (Inr (acc @ staged_paths tmp cands (f # fs)), w')"
    using mv r by (simp add: staged_paths_def)
  have c2: "fs_dirs w' = fs_dirs w" using d by simp
  have "fs_files w' ?src = fs_files ?w1 ?src"
    using frame src_not_dst src_not_src by blast
  then have "fs_files w' ?src = None" using sd by simp
  then have c3: "\<forall>g \<in> set (f # fs). fs_files w' (up_temporary_file_path g) = None"
    using gone by simp
  have c4: "fs_files w' (os_path_join tmp (up_name g)) = fs_files w (up_temporary_file_path g)"
    if h: "f # fs = xs @ g # ys" "up_name g \<notin> up_name ` set ys" for xs g ys
  proof (cases xs)
    case Nil
    then have e: "g = f" "ys = fs" using h(1) by simp_all
    have "?dst \<notin> (\<lambda>g. os_path_join tmp (up_name g)) ` set fs"
      using h(2) e dsts dst by auto
    moreover have "?dst \<notin> up_temporary_file_path ` set fs"
      using p3 udst by auto
    ultimately have "fs_files w' ?dst = fs_files ?w1 ?dst" using frame by blast
    then show ?thesis using e data by simp
  next
    case (Cons x xs')
    then have e: "fs = xs' @ g # ys" using h(1) by simp
    then have "g \<in> set fs" by simp
    then have "up_temporary_file_path g \<noteq> ?src \<and> up_temporary_file_path g \<noteq> ?dst"
      using srcs by blast
    moreover have "fs_files w' (os_path_join tmp (up_name g))
                     = fs_files ?w1 (up_temporary_file_path g)"
      using kept e h(2) by blast
    ultimately show ?thesis by simp
  qed
  have c5: "fs_files w' p = fs_files w p"
    if h: "p \<notin> up_temporary_file_path ` set (f # fs)"
          "p \<notin> (\<lambda>g. os_path_join tmp (up_name g)) ` set (f # fs)" for p
  proof -
    have "fs_files w' p = fs_files ?w1 p" using frame h by simp
    moreover have "p \<noteq> ?src" "p \<noteq> ?dst" using h by auto
    ultimately show ?thesis by simp
  qed
  show ?case using c1 c2 c3 c4 c5 by blast
qed

text \<open>
  Staging without an archive, for the files that \<^verbatim>\<open>request.FILES.values()\<close> holds
  (the last file of each form field): when the directory is fresh, these files have
  base names and their temporary files exist and are distinct, staging succeeds and
  returns, in their order, exactly the paths of those whose names are candidates; the
  directory is created; each of them has the path of the directory followed by its own
  name, its temporary file no longer exists (it was moved, not copied), and its path
  is among the returned ones if and only if its name is a candidate; and its bytes are
  at its path in the directory (for several of one name, those of the last).
\<close>

lemma prepare_job_moves_values:
  assumes "files_get (req_FILES request) ''archive'' = None"
    and "fresh_dir tmp w"
    and "\<forall>f \<in> set (uploads request).
           valid_name (up_name f) \<and> fs_files w (up_temporary_file_path f) \<noteq> None"
    and "distinct (map up_temporary_file_path (uploads request))"
  shows "\<exists>w'. prepare_job eng tmp request hazard_output_id hazard_job_id cands w =
                (Inr (staged_paths tmp cands (uploads request)), w') \<and>
           fs_dirs w' = tmp # fs_dirs w \<and>
           (\<forall>f \<in> set (uploads request).
              os_path_join tmp (up_name f) = tmp @ ''/'' @ up_name f \<and>
              fs_files w' (up_temporary_file_path f) = None \<and>
              (os_path_join tmp (up_name f) \<in> set (staged_paths tmp cands (uploads request))
                 \<longleftrightarrow> up_name f \<in> set cands)) \<and>
           (\<forall>xs f ys. uploads request = xs @ f # ys \<and> up_name f \<notin> up_name ` set ys \<longrightarrow>
              fs_files w' (os_path_join tmp (up_name f)) =
                fs_files w (up_temporary_file_path f))"
proof -
  let ?files = "uploads request"
  let ?w1 = "mkdtemp tmp w"
  have t1: "tmp \<noteq> []" and t2: "last tmp \<noteq> CHR ''/''"
    and t3: "\<forall>p. under tmp p \<longrightarrow> fs_files w p = None \<and> p \<notin> set (fs_dirs w)"
    using assms(2) by (simp_all add: fresh_dir_def)
  have a1: "\<forall>f \<in> set ?files. valid_name (up_name f)" using assms(3) by blast
  have a3: "\<forall>f \<in> set ?files. fs_files ?w1 (up_temporary_file_path f) \<noteq> None \<and>
                            \<not> under tmp (up_temporary_file_path f)"
    using assms(3) t3 by (auto simp: mkdtemp_def)
  have a4: "\<forall>q \<in> set (fs_dirs ?w1). \<not> under tmp q"
    using t3 not_under_self by (auto simp: mkdtemp_def)
  from move_uploads_spec [OF t1 t2 a1 assms(4) a3 a4, of cands "[]"]
  obtain w' where
    r: "move_uploads tmp cands ?files [] ?w1 = (Inr ([] @ staged_paths tmp cands ?files), w')"
    and d: "fs_dirs w' = fs_dirs ?w1"
    and gone: "\<forall>f \<in> set ?files. fs_files w' (up_temporary_file_path f) = None"
    and kept: "\<forall>xs f ys. ?files = xs @ f # ys \<and> up_name f \<notin> up_name ` set ys \<longrightarrow>
               fs_files w' (os_path_join tmp (up_name f)) = fs_files ?w1 (up_temporary_file_path f)"
    by blast
  have c1: "prepare_job eng tmp request hazard_output_id hazard_job_id cands w =
                (Inr (staged_paths tmp cands ?files), w')"
    using r assms(1) by (simp add: prepare_job_def uploads_def)
  have c2: "fs_dirs w' = tmp # fs_dirs w" using d by (simp add: mkdtemp_def)
  have j: "os_path_join tmp (up_name f) = tmp @ ''/'' @ up_name f" if "f \<in> set ?files" for f
    using that a1 t1 t2 by (simp add: join_valid)
  have m: "os_path_join tmp (up_name f) \<in> set (staged_paths tmp cands ?files)
             \<longleftrightarrow> up_name f \<in> set cands" if f: "f \<in> set ?files" for f
  proof
    assume "os_path_join tmp (up_name f) \<in> set (staged_paths tmp cands ?files)"
    then obtain g where g: "g \<in> set ?files" "up_name g \<in> set cands"
        "os_path_join tmp (up_name g) = os_path_join tmp (up_name f)"
      by (auto simp: staged_paths_def)
    then have "up_name g = up_name f" using j [OF f] j [OF g(1)] by simp
    then show "up_name f \<in> set cands" using g(2) by simp
  next
    assume "up_name f \<in> set cands"
    then show "os_path_join tmp (up_name f) \<in> set (staged_paths tmp cands ?files)"
      using f by (auto simp: staged_paths_def)
  qed
  have c3: "\<forall>f \<in> set ?files.
              os_path_join tmp (up_name f) = tmp @ ''/'' @ up_name f \<and>
              fs_files w' (up_temporary_file_path f) = None \<and>
              (os_path_join tmp (up_name f) \<in> set (staged_paths tmp cands ?files)
                 \<longleftrightarrow> up_name f \<in> set cands)"
    using j gone m by blast
  have c4: "\<forall>xs f ys. ?files = xs @ f # ys \<and> up_name f \<notin> up_name ` set ys \<longrightarrow>
              fs_files w' (os_path_join tmp (up_name f)) =
                fs_files w (up_temporary_file_path f)"
    using kept by (simp add: mkdtemp_def)
  show ?thesis using c1 c2 c3 c4 by blast
qed

text \<open>
  Claim C8. The claim asks that every uploaded file is moved and that the path of each
  file whose name is a candidate is returned. With two files under one form field,
  \<^verbatim>\<open>job.ini\<close> first and \<^verbatim>\<open>model.xml\<close> last, \<^verbatim>\<open>request.FILES.values()\<close> holds
  only the last file of the field: staging returns no path, the job file stays at its
  temporary place and is not in the directory, and only the model is moved.
\<close>

theorem prepare_job_same_field:
  "fst (prepare_job ex_engine ex_tmp ex_request_same_field None None
          [''job_hazard.ini'', ''job.ini''] ex_upload_world) = Inr [] \<and>
   fs_files (snd (prepare_job ex_engine ex_tmp ex_request_same_field None None
          [''job_hazard.ini'', ''job.ini''] ex_upload_world)) ''/var/upload/u1''
     = Some ''[general]'' \<and>
   fs_files (snd (prepare_job ex_engine ex_tmp ex_request_same_field None None
          [''job_hazard.ini'', ''job.ini''] ex_upload_world)) ''/tmp/tmpB/job.ini'' = None \<and>
   fs_files (snd (prepare_job ex_engine ex_tmp ex_request_same_field None None
          [''job_hazard.ini'', ''job.ini''] ex_upload_world)) ''/tmp/tmpB/model.xml''
     = Some ''<nrml/>''"
  by (simp add: prepare_job_def ex_request_same_field_def mkdtemp_def shutil_move_def
      os_path_join_def ex_post_def ex_upload_def ex_upload_world_def ex_field_def
      files_get_def files_values_def ex_world_def ex_tmp_def Let_def)

section \<open>Listing\<close>

text \<open>
  The filters of \<^verbatim>\<open>_get_calcs\<close>, applied one after the other to the ordered rows,
  select the rows that meet all of them.
\<close>

lemma filter_order_by: "filter P (order_by_desc_id qs) = order_by_desc_id (filter P qs)"
  by (simp add: order_by_desc_id_def filter_sort rev_filter [symmetric])



lemma selected_description: "selected to_bool s q user id' jp \<Longrightarrow> jp_name jp = ''description''"
  by (simp add: selected_def)

lemma selected_id: "selected to_bool s q user (Some i) jp \<Longrightarrow> jp_job_id jp = i"
  by (auto simp: selected_def split: option.splits)




lemma at_most_one:
  assumes "distinct (map f zs)" and "\<forall>z \<in> set zs. f z = i"
  shows "length zs \<le> 1"
proof (cases zs)
  case Nil
  then show ?thesis by simp
next
  case (Cons a rest)
  show ?thesis
  proof (cases rest)
    case Nil
    then show ?thesis using Cons by simp
  next
    case (Cons b rest')
    then have "f a = f b" using assms(2) \<open>zs = a # rest\<close> by simp
    then show ?thesis using assms(1) \<open>zs = a # rest\<close> Cons by simp
  qed
qed

lemma selected_at_most_one:
  assumes "one_description_per_job s"
  shows "length (filter (selected to_bool s q user (Some i)) (order_by_desc_id (job_params s))) \<le> 1"
proof -
  let ?sel = "selected to_bool s q user (Some i)"
  let ?d = "\<lambda>jp. jp_name jp = ''description''"
  have "filter ?sel (job_params s) = filter ?sel (filter ?d (job_params s))"
    unfolding filter_filter
    by (rule filter_cong [OF refl]) (auto dest: selected_description)
  moreover have "distinct (map jp_job_id (filter ?sel (filter ?d (job_params s))))"
    using assms unfolding one_description_per_job_def by (rule distinct_map_filter)
  ultimately have "distinct (map jp_job_id (filter ?sel (job_params s)))" by simp
  moreover have "\<forall>jp \<in> set (filter ?sel (job_params s)). jp_job_id jp = i"
    by (auto dest: selected_id)
  ultimately have "length (filter ?sel (job_params s)) \<le> 1" by (rule at_most_one)
  moreover have "length (order_by_desc_id xs) = length xs" for xs
    by (simp add: order_by_desc_id_def)
  ultimately show ?thesis unfolding filter_order_by by simp
qed





end
